theory Spec2Isabelle
  imports Complex_Main "HOL-Library.Log_Nat" "HOL-Library.AList"
begin

section \<open>Strings\<close>

text \<open>
  A JavaScript string is a sequence of UTF-16 code units, and every string operation of
  \<^verbatim>\<open>run.ts\<close> (\<^verbatim>\<open>split\<close>, \<^verbatim>\<open>trim\<close>, \<^verbatim>\<open>endsWith\<close>, \<^verbatim>\<open>replace\<close>,
  \<^verbatim>\<open>includes\<close>) works on code units. A string is therefore a list of code units, each a
  natural number; \<open>str\<close> turns an ASCII literal into such a list.
\<close>

type_synonym jsstring = "nat list"

abbreviation str :: "string \<Rightarrow> jsstring" where
  "str s \<equiv> map of_char s"

text \<open>
  \<^verbatim>\<open>s.split(sep)\<close> for a separator of one code unit: the pieces between the separators,
  always at least one piece (\<^verbatim>\<open>''.split(':')\<close> is \<^verbatim>\<open>['']\<close>).
\<close>

fun split :: "nat \<Rightarrow> jsstring \<Rightarrow> jsstring list" where
  "split sep [] = [[]]"
| "split sep (c # cs) =
     (if c = sep then [] # split sep cs
      else (case split sep cs of [] \<Rightarrow> [[c]] | p # ps \<Rightarrow> (c # p) # ps))"

text \<open>
  The code units that \<^verbatim>\<open>trim\<close> and the number parsers strip: ECMAScript's WhiteSpace
  (TAB, VT, FF, SP, NBSP, ZWNBSP and the Unicode space separators) and LineTerminator
  (LF, CR, LS, PS).
\<close>

definition is_whitespace :: "nat \<Rightarrow> bool" where
  "is_whitespace c \<longleftrightarrow>
     c = 9 \<or> c = 10 \<or> c = 11 \<or> c = 12 \<or> c = 13 \<or> c = 32 \<or> c = 160 \<or> c = 5760 \<or>
     (8192 \<le> c \<and> c \<le> 8202) \<or> c = 8232 \<or> c = 8233 \<or> c = 8239 \<or> c = 8287 \<or>
     c = 12288 \<or> c = 65279"

definition trimStart :: "jsstring \<Rightarrow> jsstring" where
  "trimStart s = dropWhile is_whitespace s"

definition trim :: "jsstring \<Rightarrow> jsstring" where
  "trim s = rev (dropWhile is_whitespace (rev (dropWhile is_whitespace s)))"

text \<open>\<^verbatim>\<open>s.endsWith(c)\<close> for a search string of one code unit.\<close>

definition endsWith :: "jsstring \<Rightarrow> nat \<Rightarrow> bool" where
  "endsWith s c \<longleftrightarrow> s \<noteq> [] \<and> last s = c"

text \<open>
  \<^verbatim>\<open>s.replace(c, '')\<close> with a string pattern of one code unit: only the first
  occurrence is replaced, here by nothing.
\<close>

definition replace :: "jsstring \<Rightarrow> nat \<Rightarrow> jsstring" where
  "replace s c = remove1 c s"

text \<open>
  \<^verbatim>\<open>toLowerCase\<close>, on the letters A to Z. The source calls it only to test
  \<^verbatim>\<open>includes('time')\<close>; no code unit outside A to Z lower-cases to one of the letters
  t, i, m, e standing directly before the next letter of that word (U+0130 becomes
  \<^verbatim>\<open>i\<close> followed by U+0307), so the test has the same outcome as under full Unicode
  case mapping.
\<close>

definition toLowerCase :: "jsstring \<Rightarrow> jsstring" where
  "toLowerCase s = map (\<lambda>c. if 65 \<le> c \<and> c \<le> 90 then c + 32 else c) s"

fun includes_str :: "jsstring \<Rightarrow> jsstring \<Rightarrow> bool" where
  "includes_str [] pat = (pat = [])"
| "includes_str (c # cs) pat = (take (length pat) (c # cs) = pat \<or> includes_str cs pat)"

section \<open>Numbers\<close>

text \<open>
  A JavaScript number is an IEEE 754 double: not-a-number, an infinity, or a finite
  value, which is a rational. The two zeros are one value here: the source never
  divides by a zero (it tests \<^verbatim>\<open>!== 0\<close> first), and comparison, \<^verbatim>\<open>toFixed\<close> and
  string conversion do not tell them apart.
\<close>

datatype number = NaN | PInf | NInf | Fin rat

text \<open>\<open>ilog2 a\<close> is the binary exponent of a positive rational: \<open>2^e \<le> a < 2^(e+1)\<close>.\<close>

definition ilog2 :: "rat \<Rightarrow> int" where
  "ilog2 a = (case quotient_of a of (n, d) \<Rightarrow>
     let k = bitlen n - bitlen d in if 2 powi k \<le> a then k else k - 1)"

definition round_half_even :: "rat \<Rightarrow> int" where
  "round_half_even q =
     (let f = \<lfloor>q\<rfloor>; r = q - of_int f
      in if r < 1 / 2 then f else if 1 / 2 < r then f + 1
         else if even f then f else f + 1)"

text \<open>
  Rounding a rational to the nearest double, ties to even: 53 significant bits, the
  smallest unit \<open>2^-1074\<close>, and infinity from \<open>2^1024\<close> on. Every arithmetic operation
  of IEEE 754 is the exact operation followed by this rounding.
\<close>

definition to_double :: "rat \<Rightarrow> number" where
  "to_double q =
     (if q = 0 then Fin 0
      else let a = \<bar>q\<bar>;
               u = max (ilog2 a) (- 1022) - 52;
               r = of_int (round_half_even (a / 2 powi u)) * 2 powi u
           in if 2 ^ 1024 \<le> r then (if 0 < q then PInf else NInf)
              else Fin (if 0 < q then r else - r))"

fun isNaN :: "number \<Rightarrow> bool" where
  "isNaN NaN = True"
| "isNaN _ = False"

fun negate :: "number \<Rightarrow> number" where
  "negate NaN = NaN"
| "negate PInf = NInf"
| "negate NInf = PInf"
| "negate (Fin x) = Fin (- x)"

text \<open>\<^verbatim>\<open>x - y\<close>\<close>

fun num_sub :: "number \<Rightarrow> number \<Rightarrow> number" where
  "num_sub NaN _ = NaN"
| "num_sub _ NaN = NaN"
| "num_sub PInf PInf = NaN"
| "num_sub NInf NInf = NaN"
| "num_sub PInf _ = PInf"
| "num_sub NInf _ = NInf"
| "num_sub (Fin x) PInf = NInf"
| "num_sub (Fin x) NInf = PInf"
| "num_sub (Fin x) (Fin y) = to_double (x - y)"

text \<open>\<^verbatim>\<open>x * y\<close>\<close>

fun sign_of :: "number \<Rightarrow> int" where
  "sign_of NaN = 0"
| "sign_of PInf = 1"
| "sign_of NInf = - 1"
| "sign_of (Fin x) = (if 0 < x then 1 else if x < 0 then - 1 else 0)"

fun num_mul :: "number \<Rightarrow> number \<Rightarrow> number" where
  "num_mul NaN _ = NaN"
| "num_mul _ NaN = NaN"
| "num_mul (Fin x) (Fin y) = to_double (x * y)"
| "num_mul x y =
     (let s = sign_of x * sign_of y
      in if s = 0 then NaN else if 0 < s then PInf else NInf)"

text \<open>
  \<^verbatim>\<open>x / y\<close>. The source divides only by a value that passed \<^verbatim>\<open>!== 0\<close>; for a zero
  divisor the quotient is that of the positive zero.
\<close>

fun num_div :: "number \<Rightarrow> number \<Rightarrow> number" where
  "num_div NaN _ = NaN"
| "num_div _ NaN = NaN"
| "num_div (Fin x) (Fin y) =
     (if y = 0 then (if x = 0 then NaN else if 0 < x then PInf else NInf)
      else to_double (x / y))"
| "num_div (Fin x) _ = Fin 0"
| "num_div x (Fin y) = (if (0 \<le> y) = (x = PInf) then PInf else NInf)"
| "num_div _ _ = NaN"

text \<open>\<^verbatim>\<open>Math.abs(x)\<close>\<close>

fun math_abs :: "number \<Rightarrow> number" where
  "math_abs NaN = NaN"
| "math_abs PInf = PInf"
| "math_abs NInf = PInf"
| "math_abs (Fin x) = Fin \<bar>x\<bar>"

text \<open>\<^verbatim>\<open>x <= y\<close> and \<^verbatim>\<open>x > y\<close>: false whenever an operand is not a number.\<close>

fun less_eq_num :: "number \<Rightarrow> number \<Rightarrow> bool" where
  "less_eq_num NaN _ = False"
| "less_eq_num _ NaN = False"
| "less_eq_num NInf _ = True"
| "less_eq_num _ PInf = True"
| "less_eq_num PInf _ = False"
| "less_eq_num _ NInf = False"
| "less_eq_num (Fin x) (Fin y) = (x \<le> y)"

fun greater_num :: "number \<Rightarrow> number \<Rightarrow> bool" where
  "greater_num NaN _ = False"
| "greater_num _ NaN = False"
| "greater_num PInf PInf = False"
| "greater_num PInf _ = True"
| "greater_num _ PInf = False"
| "greater_num NInf _ = False"
| "greater_num _ NInf = True"
| "greater_num (Fin x) (Fin y) = (y < x)"

section \<open>Parsing numbers\<close>

definition is_digit :: "nat \<Rightarrow> bool" where
  "is_digit c \<longleftrightarrow> 48 \<le> c \<and> c \<le> 57"

text \<open>The value of a digit of radix 10 or 16, for a code unit that is one.\<close>

definition digit_value :: "nat \<Rightarrow> int" where
  "digit_value c =
     (if 48 \<le> c \<and> c \<le> 57 then int c - 48
      else if 97 \<le> c \<and> c \<le> 102 then int c - 87
      else int c - 55)"

definition is_radix_digit :: "int \<Rightarrow> nat \<Rightarrow> bool" where
  "is_radix_digit radix c \<longleftrightarrow>
     is_digit c \<or> (radix = 16 \<and> ((97 \<le> c \<and> c \<le> 102) \<or> (65 \<le> c \<and> c \<le> 70)))"

definition digits_value :: "int \<Rightarrow> jsstring \<Rightarrow> int" where
  "digits_value radix ds = foldl (\<lambda>a c. radix * a + digit_value c) 0 ds"

text \<open>
  An optional sign in front of a numeric literal: whether it is a minus, and the rest.
\<close>

fun strip_sign :: "jsstring \<Rightarrow> bool \<times> jsstring" where
  "strip_sign [] = (False, [])"
| "strip_sign (c # cs) =
     (if c = 45 then (True, cs) else if c = 43 then (False, cs) else (False, c # cs))"

text \<open>
  The exponent part of a decimal literal, if the string starts with a complete one
  (\<^verbatim>\<open>e\<close> or \<^verbatim>\<open>E\<close>, an optional sign, at least one digit); otherwise the literal ends
  before it and the exponent is 0.
\<close>

fun exponent_part :: "jsstring \<Rightarrow> int" where
  "exponent_part [] = 0"
| "exponent_part (c # cs) =
     (if c = 101 \<or> c = 69 then
        (case strip_sign cs of (neg, r) \<Rightarrow>
           let ds = takeWhile is_digit r
           in if ds = [] then 0
              else if neg then - digits_value 10 ds else digits_value 10 ds)
      else 0)"

text \<open>
  \<^verbatim>\<open>parseFloat(s)\<close>: leading white space is skipped, the longest prefix that is a
  decimal literal is read (\<^verbatim>\<open>Infinity\<close>, or digits with an optional fraction and an
  optional exponent, after an optional sign), and its value is rounded to a double.
  Without such a prefix the result is not-a-number.
\<close>

definition parseFloat :: "jsstring \<Rightarrow> number" where
  "parseFloat input =
     (case strip_sign (trimStart input) of (neg, s) \<Rightarrow>
        if take 8 s = str ''Infinity'' then (if neg then NInf else PInf)
        else
          let ip = takeWhile is_digit s;
              r = dropWhile is_digit s;
              has_dot = (r \<noteq> [] \<and> hd r = 46);
              fp = (if has_dot then takeWhile is_digit (tl r) else []);
              rest = (if has_dot then dropWhile is_digit (tl r) else r)
          in if ip = [] \<and> fp = [] then NaN
             else
               let m = rat_of_int (digits_value 10 (ip @ fp))
                         * 10 powi (exponent_part rest - int (length fp))
               in to_double (if neg then - m else m))"

text \<open>
  \<^verbatim>\<open>parseInt(s)\<close> without a radix: leading white space and a sign are skipped, a prefix
  \<^verbatim>\<open>0x\<close> or \<^verbatim>\<open>0X\<close> selects radix 16, the longest run of digits of the radix is read,
  and its value is rounded to a double. Without a digit the result is not-a-number.
\<close>

definition parseInt :: "jsstring \<Rightarrow> number" where
  "parseInt input =
     (case strip_sign (trimStart input) of (neg, s) \<Rightarrow>
        let hex = (take 2 s = str ''0x'' \<or> take 2 s = str ''0X'');
            radix = (if hex then 16 else 10);
            z = takeWhile (is_radix_digit radix) (if hex then drop 2 s else s)
        in if z = [] then NaN
           else
             let m = rat_of_int (digits_value radix z)
             in to_double (if neg then - m else m))"

section \<open>Printing numbers\<close>

text \<open>The decimal digits of an integer that is not negative, at least one.\<close>

function digits_of :: "int \<Rightarrow> jsstring" where
  "digits_of n =
     (if n < 10 then [nat (48 + n)] else digits_of (n div 10) @ [nat (48 + n mod 10)])"
  by pat_completeness auto
termination
  by (relation "measure nat") auto

declare digits_of.simps [simp del]

text \<open>
  The decimal exponent of a positive rational: \<open>10^(n-1) \<le> x < 10^n\<close>.
\<close>

definition decimal_exponent :: "rat \<Rightarrow> int" where
  "decimal_exponent x =
     (if 1 \<le> x then int (length (digits_of \<lfloor>x\<rfloor>))
      else let j = int (length (digits_of \<lfloor>1 / x\<rfloor>))
           in if x * 10 powi (j - 1) = 1 then 2 - j else 1 - j)"

text \<open>
  The shortest decimal that reads back as the double \<open>x\<close> (positive): with \<open>k\<close>
  significant digits the only candidates are the two decimals around \<open>x\<close>; the
  closer one is taken, the even one on a tie. Seventeen digits always suffice for a
  double. The result \<open>(s, p)\<close> stands for \<open>s * 10^p\<close>.
\<close>

fun shortest_decimal :: "nat \<Rightarrow> nat \<Rightarrow> int \<Rightarrow> rat \<Rightarrow> int \<times> int" where
  "shortest_decimal fuel k n x =
     (let p = n - int k;
          lo = \<lfloor>x / 10 powi p\<rfloor>;
          hi = lo + 1;
          dlo = x - of_int lo * 10 powi p;
          dhi = of_int hi * 10 powi p - x;
          oklo = (to_double (of_int lo * 10 powi p) = Fin x);
          okhi = (to_double (of_int hi * 10 powi p) = Fin x);
          nearest = (if dlo < dhi \<or> (dlo = dhi \<and> even lo) then (lo, p) else (hi, p))
      in case fuel of
           0 \<Rightarrow> nearest
         | Suc f \<Rightarrow>
             if oklo \<and> okhi then nearest
             else if oklo then (lo, p)
             else if okhi then (hi, p)
             else shortest_decimal f (Suc k) n x)"

declare shortest_decimal.simps [simp del]

text \<open>Trailing zeros of the digit string move into the exponent.\<close>

function strip_zeros :: "int \<Rightarrow> int \<Rightarrow> int \<times> int" where
  "strip_zeros s p = (if 0 < s \<and> s mod 10 = 0 then strip_zeros (s div 10) (p + 1) else (s, p))"
  by pat_completeness auto
termination
  by (relation "measure (\<lambda>(s, p). nat s)") auto

declare strip_zeros.simps [simp del]

text \<open>
  \<^verbatim>\<open>Number::toString\<close> for a positive finite value: the digits \<open>s\<close> of the shortest
  decimal, \<open>k\<close> of them, placed by the exponent \<open>n\<close> (the value is \<open>0.s * 10^n\<close>).
\<close>

definition positive_to_string :: "rat \<Rightarrow> jsstring" where
  "positive_to_string x =
     (case shortest_decimal 16 1 (decimal_exponent x) x of (s0, p0) \<Rightarrow>
      case strip_zeros s0 p0 of (s, p) \<Rightarrow>
        let ds = digits_of s;
            k = int (length ds);
            n = p + k
        in if k \<le> n \<and> n \<le> 21 then ds @ replicate (nat (n - k)) 48
           else if 0 < n \<and> n \<le> 21 then take (nat n) ds @ [46] @ drop (nat n) ds
           else if - 6 < n \<and> n \<le> 0 then str ''0.'' @ replicate (nat (- n)) 48 @ ds
           else
             let e = n - 1;
                 es = (if 0 \<le> e then [43] else [45]) @ digits_of \<bar>e\<bar>
             in if k = 1 then ds @ [101] @ es
                else [hd ds] @ [46] @ tl ds @ [101] @ es)"

fun number_to_string :: "number \<Rightarrow> jsstring" where
  "number_to_string NaN = str ''NaN''"
| "number_to_string PInf = str ''Infinity''"
| "number_to_string NInf = str ''-Infinity''"
| "number_to_string (Fin x) =
     (if x = 0 then str ''0''
      else if x < 0 then [45] @ positive_to_string (- x)
      else positive_to_string x)"

text \<open>
  \<^verbatim>\<open>x.toFixed(2)\<close>: a value that is not finite, or is \<open>10^21\<close> or more in magnitude, is
  printed as \<^verbatim>\<open>toString\<close> prints it; any other value is rounded to hundredths (a tie
  goes up in magnitude) and printed with at least one digit before the point and
  exactly two after it.
\<close>

definition toFixed2 :: "number \<Rightarrow> jsstring" where
  "toFixed2 v =
     (case v of
        Fin x \<Rightarrow>
          if 10 ^ 21 \<le> \<bar>x\<bar> then number_to_string v
          else
            let n = \<lfloor>\<bar>x\<bar> * 100 + 1 / 2\<rfloor>;
                m = (if n < 100 then replicate (3 - length (digits_of n)) 48 else [])
                      @ digits_of n;
                k = length m
            in (if x < 0 then [45] else []) @ take (k - 2) m @ [46] @ drop (k - 2) m
      | _ \<Rightarrow> number_to_string v)"

section \<open>The diagnostics object\<close>

text \<open>
  \<^verbatim>\<open>type Diagnostics = {[key: string]: {value: number, unit: 's' | '' | 'K'}}\<close>
\<close>

datatype unit_suffix = Seconds | Kilo | NoUnit

fun unit_str :: "unit_suffix \<Rightarrow> jsstring" where
  "unit_str Seconds = str ''s''"
| "unit_str Kilo = str ''K''"
| "unit_str NoUnit = []"

record metric =
  m_value :: number
  m_unit :: unit_suffix

text \<open>
  \<^verbatim>\<open>parseDiagnostics\<close> fills a plain object \<^verbatim>\<open>{}\<close>. Such an object has its own
  properties, kept in the order of their creation, and a prototype. The prototype is
  \<^verbatim>\<open>Object.prototype\<close> (\<open>None\<close>) until a metric is assigned to the key
  \<^verbatim>\<open>__proto__\<close>: that assignment runs the setter inherited from
  \<^verbatim>\<open>Object.prototype\<close>, which makes the assigned metric object the prototype
  (\<open>Some\<close>) and creates no property.
\<close>

record diagnostics =
  entries :: "(jsstring \<times> metric) list"
  prototype :: "metric option"

text \<open>
  What reading a property of the object can give: \<^verbatim>\<open>undefined\<close>, a number, a string,
  a metric object, or an object of the standard library (\<^verbatim>\<open>Object.prototype\<close> or one of
  its functions).
\<close>

datatype jsvalue = Undefined | Num number | Str jsstring | Metric metric | Native

definition object_prototype_keys :: "jsstring list" where
  "object_prototype_keys =
     [str ''constructor'', str ''hasOwnProperty'', str ''isPrototypeOf'',
      str ''propertyIsEnumerable'', str ''toLocaleString'', str ''toString'',
      str ''valueOf'', str ''__defineGetter__'', str ''__defineSetter__'',
      str ''__lookupGetter__'', str ''__lookupSetter__'']"

text \<open>
  \<^verbatim>\<open>diagnostics[key]\<close>: an own property; else a property of the metric object in the
  prototype chain, if there is one; else a property of \<^verbatim>\<open>Object.prototype\<close>, where
  \<^verbatim>\<open>__proto__\<close> is a getter for the prototype of the object; else \<^verbatim>\<open>undefined\<close>.
\<close>

definition get :: "diagnostics \<Rightarrow> jsstring \<Rightarrow> jsvalue" where
  "get d key =
     (case map_of (entries d) key of
        Some m \<Rightarrow> Metric m
      | None \<Rightarrow>
          (case prototype d of
             Some p \<Rightarrow>
               if key = str ''value'' then Num (m_value p)
               else if key = str ''unit'' then Str (unit_str (m_unit p))
               else if key = str ''__proto__'' then Metric p
               else if key \<in> set object_prototype_keys then Native
               else Undefined
           | None \<Rightarrow>
               if key = str ''__proto__'' \<or> key \<in> set object_prototype_keys then Native
               else Undefined))"

text \<open>
  \<^verbatim>\<open>diagnostics[key] = m\<close>: an own property is overwritten where it stands, a new one
  is created after the others, and the key \<^verbatim>\<open>__proto__\<close> sets the prototype.
\<close>

definition put :: "diagnostics \<Rightarrow> jsstring \<Rightarrow> metric \<Rightarrow> diagnostics" where
  "put d key m =
     (if key = str ''__proto__'' \<and> map_of (entries d) key = None
      then d\<lparr>prototype := Some m\<rparr>
      else d\<lparr>entries := AList.update key m (entries d)\<rparr>)"

text \<open>
  An array index is the canonical decimal form of an integer below \<open>2^32 - 1\<close>.
\<close>

definition is_array_index :: "jsstring \<Rightarrow> bool" where
  "is_array_index key \<longleftrightarrow>
     key \<noteq> [] \<and> list_all is_digit key \<and> (key = str ''0'' \<or> hd key \<noteq> 48)
       \<and> digits_value 10 key < 2 ^ 32 - 1"

text \<open>
  The keys \<^verbatim>\<open>for (const key in diagnostics)\<close> visits: the own keys that are array
  indices in ascending numeric order, the other own keys in the order of their
  creation, then the enumerable keys of the prototype chain that no own key shadows
  (the properties of \<^verbatim>\<open>Object.prototype\<close> are not enumerable).
\<close>

definition own_keys :: "diagnostics \<Rightarrow> jsstring list" where
  "own_keys d =
     (let ks = map fst (entries d)
      in sort_key (digits_value 10) (filter is_array_index ks)
           @ filter (\<lambda>k. \<not> is_array_index k) ks)"

definition for_in_keys :: "diagnostics \<Rightarrow> jsstring list" where
  "for_in_keys d =
     own_keys d @
       (case prototype d of
          None \<Rightarrow> []
        | Some p \<Rightarrow> filter (\<lambda>k. k \<notin> set (own_keys d)) [str ''value'', str ''unit''])"

section \<open>parseDiagnostics\<close>

text \<open>The body of the loop over the lines, and the loop.\<close>

definition parse_line :: "diagnostics \<Rightarrow> jsstring \<Rightarrow> diagnostics" where
  "parse_line diagnostics line =
     (let parts = split 58 line
      in if length parts = 2 then
           let key = trim (parts ! 0);
               val = trim (parts ! 1)
           in if endsWith val 115 then
                put diagnostics key \<lparr>m_value = parseFloat (replace val 115), m_unit = Seconds\<rparr>
              else if endsWith val 75 then
                put diagnostics key \<lparr>m_value = parseInt (replace val 75), m_unit = Kilo\<rparr>
              else
                put diagnostics key \<lparr>m_value = parseInt val, m_unit = NoUnit\<rparr>
         else diagnostics)"

definition parseDiagnostics :: "jsstring \<Rightarrow> diagnostics" where
  "parseDiagnostics input =
     foldl parse_line \<lparr>entries = [], prototype = None\<rparr> (split 10 input)"

section \<open>compareDiagnostics\<close>

text \<open>\<^verbatim>\<open>v || 0\<close>\<close>

fun truthy :: "jsvalue \<Rightarrow> bool" where
  "truthy Undefined = False"
| "truthy (Num x) = (x \<noteq> NaN \<and> x \<noteq> Fin 0)"
| "truthy (Str s) = (s \<noteq> [])"
| "truthy (Metric m) = True"
| "truthy Native = True"

definition or_zero :: "jsvalue \<Rightarrow> jsvalue" where
  "or_zero v = (if truthy v then v else Num (Fin 0))"

text \<open>
  \<^verbatim>\<open>v.value\<close> and \<^verbatim>\<open>v.unit\<close>, with \<open>None\<close> for \<^verbatim>\<open>undefined\<close>: only a metric object
  has these properties; a number, a string and the objects of the standard library
  have neither. (On \<^verbatim>\<open>undefined\<close> itself the read raises a TypeError, which
  \<open>row\<close> below makes explicit.)
\<close>

fun dot_value :: "jsvalue \<Rightarrow> number option" where
  "dot_value (Metric m) = Some (m_value m)"
| "dot_value _ = None"

fun dot_unit :: "jsvalue \<Rightarrow> jsstring option" where
  "dot_unit (Metric m) = Some (unit_str (m_unit m))"
| "dot_unit _ = None"

text \<open>The conversion to a number that arithmetic applies: \<^verbatim>\<open>undefined\<close> is not-a-number.\<close>

fun to_number :: "number option \<Rightarrow> number" where
  "to_number None = NaN"
| "to_number (Some x) = x"

text \<open>The conversions to a string that a template literal applies.\<close>

fun value_to_string :: "number option \<Rightarrow> jsstring" where
  "value_to_string None = str ''undefined''"
| "value_to_string (Some x) = number_to_string x"

fun unit_to_string :: "jsstring option \<Rightarrow> jsstring" where
  "unit_to_string None = str ''undefined''"
| "unit_to_string (Some u) = u"

text \<open>\<^verbatim>\<open>const diff = currentValue.value - prevValue.value\<close>\<close>

definition diff :: "jsvalue \<Rightarrow> jsvalue \<Rightarrow> number" where
  "diff prevValue currentValue =
     num_sub (to_number (dot_value currentValue)) (to_number (dot_value prevValue))"

text \<open>
  \<^verbatim>\<open>let diffPercentage = currentValue.value !== 0 ? (diff / currentValue.value) * 100 : 0\<close>
  \<^verbatim>\<open>if (isNaN(diffPercentage)) diffPercentage = 0\<close>
\<close>

definition diffPercentage :: "jsvalue \<Rightarrow> jsvalue \<Rightarrow> number" where
  "diffPercentage prevValue currentValue =
     (let p = (if dot_value currentValue \<noteq> Some (Fin 0)
               then num_mul (num_div (diff prevValue currentValue)
                                     (to_number (dot_value currentValue))) (Fin 100)
               else Fin 0)
      in if isNaN p then Fin 0 else p)"

definition shouldApplyThreshold :: "jsstring \<Rightarrow> bool" where
  "shouldApplyThreshold key = includes_str (toLowerCase key) (str ''time'')"

definition isWithinThreshold :: "number \<Rightarrow> number \<Rightarrow> bool" where
  "isWithinThreshold d threshold = less_eq_num (num_mul (math_abs d) (Fin 1000)) threshold"

text \<open>The three status symbols: plus-minus sign, up-pointing and down-pointing triangle.\<close>

definition unchanged :: jsstring where "unchanged = [177]"
definition increased :: jsstring where "increased = [9650]"
definition decreased :: jsstring where "decreased = [9660]"

definition status :: "number \<Rightarrow> jsstring \<Rightarrow> number \<Rightarrow> jsstring" where
  "status d key threshold =
     (if d = Fin 0 then unchanged
      else if shouldApplyThreshold key \<and> isWithinThreshold d threshold then unchanged
      else if greater_num d (Fin 0) then increased else decreased)"

text \<open>A value cell of the table: \<^verbatim>\<open>${v.value}${v.unit}\<close>\<close>

definition cell :: "jsvalue \<Rightarrow> jsstring" where
  "cell v = value_to_string (dot_value v) @ unit_to_string (dot_unit v)"

text \<open>The line that one pass of the loop appends to \<^verbatim>\<open>markdown\<close>.\<close>

definition row_text :: "jsvalue \<Rightarrow> jsvalue \<Rightarrow> number \<Rightarrow> jsstring \<Rightarrow> jsstring" where
  "row_text prevValue currentValue threshold key =
     str ''| '' @ key @ str '' | '' @ cell prevValue @ str '' | '' @ cell currentValue
       @ str '' | ''
       @ status (diff prevValue currentValue) key threshold
       @ str '' (''
       @ (if greater_num (diffPercentage prevValue currentValue) (Fin 0) then str ''+'' else [])
       @ toFixed2 (diffPercentage prevValue currentValue)
       @ str ''%) |'' @ [10]"

text \<open>
  One pass of the loop. Reading \<^verbatim>\<open>.value\<close> of \<^verbatim>\<open>undefined\<close> would raise a TypeError
  (\<open>None\<close>).
\<close>

definition row :: "diagnostics \<Rightarrow> diagnostics \<Rightarrow> number \<Rightarrow> jsstring \<Rightarrow> jsstring option" where
  "row previousDiagnostics currentDiagnostics threshold key =
     (let prevValue = or_zero (get previousDiagnostics key);
          currentValue = or_zero (get currentDiagnostics key)
      in if prevValue = Undefined \<or> currentValue = Undefined then None
         else Some (row_text prevValue currentValue threshold key))"

fun rows ::
  "diagnostics \<Rightarrow> diagnostics \<Rightarrow> number \<Rightarrow> jsstring list \<Rightarrow> jsstring \<Rightarrow> jsstring option"
where
  "rows previousDiagnostics currentDiagnostics threshold [] markdown = Some markdown"
| "rows previousDiagnostics currentDiagnostics threshold (key # keys) markdown =
     (case row previousDiagnostics currentDiagnostics threshold key of
        None \<Rightarrow> None
      | Some r \<Rightarrow> rows previousDiagnostics currentDiagnostics threshold keys (markdown @ r))"

definition header :: jsstring where
  "header =
     str ''## Diagnostics Comparison:'' @ [10, 10]
       @ str ''<details><summary>Click to expand</summary>'' @ [10, 10]
       @ str ''| Metric | Previous | New | Status |'' @ [10]
       @ str ''| --- | --- | --- | --- |'' @ [10]"

definition footer :: jsstring where
  "footer = str ''</details>'' @ [10, 10]"

definition compareDiagnostics :: "jsstring \<Rightarrow> jsstring \<Rightarrow> number \<Rightarrow> jsstring option" where
  "compareDiagnostics prev current threshold =
     (let previousDiagnostics = parseDiagnostics prev;
          currentDiagnostics = parseDiagnostics current
      in case rows previousDiagnostics currentDiagnostics threshold
                (for_in_keys currentDiagnostics) header of
           None \<Rightarrow> None
         | Some markdown \<Rightarrow> Some (markdown @ footer))"

section \<open>Two decimal places\<close>

text \<open>
  A string shows a number with two decimal places when it is an optional minus sign, at
  least one digit, a point and exactly two digits. The test reads the string from its
  end.
\<close>

fun decimals_reversed :: "jsstring \<Rightarrow> bool" where
  "decimals_reversed (f2 # f1 # dot # d # ds) =
     (is_digit f2 \<and> is_digit f1 \<and> dot = 46 \<and> list_all is_digit (d # ds))"
| "decimals_reversed _ = False"

definition two_decimal_places :: "jsstring \<Rightarrow> bool" where
  "two_decimal_places s =
     decimals_reversed (rev (if take 1 s = [45] then drop 1 s else s))"

section \<open>Values that hold a number\<close>





section \<open>Properties of the numbers\<close>

lemma bitlen_powi_bounds:
  assumes "0 < (n::int)"
  shows "(2::rat) powi (bitlen n - 1) \<le> of_int n" "of_int n < (2::rat) powi (bitlen n)"
proof -
  from bitlen_bounds[OF assms] have a: "2 ^ nat (bitlen n - 1) \<le> n" and b: "n < 2 ^ nat (bitlen n)" by auto
  have ge1: "1 \<le> bitlen n" using assms by (auto simp: bitlen_alt_def)
  have "(of_int (2 ^ nat (bitlen n - 1)) :: rat) \<le> of_int n" using a by (simp only: of_int_le_iff)
  then show "(2::rat) powi (bitlen n - 1) \<le> of_int n" using ge1 by (simp add: power_int_nonneg_exp)
  have "(of_int n :: rat) < of_int (2 ^ nat (bitlen n))" using b by (simp only: of_int_less_iff)
  then show "of_int n < (2::rat) powi (bitlen n)" using ge1 by (simp add: power_int_nonneg_exp)
qed

lemma ilog2_bounds:
  assumes "0 < a"
  shows "2 powi (ilog2 a) \<le> a \<and> a < 2 powi (ilog2 a + 1)"
proof -
  obtain n d where qd: "quotient_of a = (n, d)" by (cases "quotient_of a")
  have d: "0 < d" using quotient_of_denom_pos[OF qd] .
  have a: "a = of_int n / of_int d" using quotient_of_div[OF qd] .
  have n: "0 < n" using assms d unfolding a by (simp add: zero_less_divide_iff)
  define k where "k = bitlen n - bitlen d"
  note bn = bitlen_powi_bounds[OF n] and bd = bitlen_powi_bounds[OF d]
  have dpos: "(0::rat) < of_int d" using d by simp
  have ppos: "\<And>i. (0::rat) < 2 powi i" by simp
  have up: "a < 2 powi (k + 1)"
  proof -
    have "a < 2 powi bitlen n / of_int d"
      unfolding a using bn(2) dpos by (rule divide_strict_right_mono)
    also have "\<dots> \<le> 2 powi bitlen n / 2 powi (bitlen d - 1)"
      using bd(1) dpos ppos by (intro divide_left_mono) (auto intro: less_imp_le)
    also have "\<dots> = 2 powi (bitlen n - (bitlen d - 1))"
      by (simp add: power_int_diff)
    also have "bitlen n - (bitlen d - 1) = k + 1" by (simp add: k_def)
    finally show ?thesis .
  qed
  have lo: "2 powi (k - 1) < a"
  proof -
    have "k - 1 = (bitlen n - 1) - bitlen d" by (simp add: k_def)
    then have "(2::rat) powi (k - 1) = 2 powi (bitlen n - 1) / 2 powi bitlen d"
      by (simp add: power_int_diff)
    also have "\<dots> < 2 powi (bitlen n - 1) / of_int d"
      using bd(2) dpos ppos by (intro divide_strict_left_mono) auto
    also have "\<dots> \<le> a"
      unfolding a using bn(1) dpos by (intro divide_right_mono) auto
    finally show ?thesis .
  qed
  show ?thesis
    using up lo by (auto simp: ilog2_def qd k_def Let_def not_le intro: less_imp_le)
qed

lemma ilog2_unique:
  assumes "0 < a" "2 powi e \<le> a" "a < 2 powi (e + 1)"
  shows "ilog2 a = e"
proof (rule ccontr)
  assume ne: "ilog2 a \<noteq> e"
  from ilog2_bounds[OF assms(1)]
  have b1: "2 powi (ilog2 a) \<le> a" and b2: "a < 2 powi (ilog2 a + 1)" by auto
  show False
  proof (cases "ilog2 a < e")
    case True
    then have "(2::rat) powi (ilog2 a + 1) \<le> 2 powi e"
      by (intro power_int_increasing) auto
    with b2 assms(2) show False by simp
  next
    case False
    with ne have "e + 1 \<le> ilog2 a" by simp
    then have "(2::rat) powi (e + 1) \<le> 2 powi (ilog2 a)"
      by (intro power_int_increasing) auto
    with b1 assms(3) show False by simp
  qed
qed

lemma round_half_even_near:
  assumes "\<bar>q - of_int m\<bar> < 1 / 2"
  shows "round_half_even q = m"
proof -
  have "\<lfloor>q\<rfloor> = m \<or> \<lfloor>q\<rfloor> = m - 1" using assms by (auto simp: floor_eq_iff abs_less_iff)
  then show ?thesis using assms
    by (auto simp: round_half_even_def Let_def abs_less_iff)
qed

lemma round_half_even_of_int [simp]: "round_half_even (of_int m) = m"
  by (rule round_half_even_near) simp

lemma to_double_zero [simp]: "to_double 0 = Fin 0"
  by (simp add: to_double_def)

lemma to_double_neg: "to_double (- q) = negate (to_double q)"
  by (cases "q = 0"; cases "0 < q") (auto simp: to_double_def Let_def)

lemma to_double_eval:
  assumes "0 < a" "2 powi e \<le> a" "a < 2 powi (e + 1)"
    and "u = max e (- 1022) - 52"
    and "\<bar>a / 2 powi u - of_int m\<bar> < 1 / 2"
    and "of_int m * 2 powi u = r"
    and "r < 2 ^ 1024"
  shows "to_double a = Fin r" "to_double (- a) = Fin (- r)"
  using assms ilog2_unique[OF assms(1-3)] round_half_even_near[OF assms(5)]
  by (simp_all add: to_double_def Let_def)

lemma to_double_exact_pos:
  assumes a: "a = of_int m * 2 powi u" and m: "0 < m" "m < 2 ^ 53"
    and u: "- 1074 \<le> u" "u \<le> 971"
  shows "to_double a = Fin a"
proof -
  have apos: "0 < a" unfolding a using m by simp
  define e where "e = ilog2 a"
  define v where "v = max e (- 1022) - 52"
  from ilog2_bounds[OF apos] have lo: "2 powi e \<le> a" by (simp add: e_def)
  have "(of_int m :: rat) < of_int (2 ^ 53)" using m(2) by (simp only: of_int_less_iff)
  then have mr: "(of_int m :: rat) < 2 ^ 53" by simp
  have au: "a < 2 ^ 53 * 2 powi u"
    unfolding a using mr by (intro mult_strict_right_mono) auto
  also have "\<dots> = 2 powi (53 + u)" by (simp add: power_int_add)
  finally have "(2::rat) powi e < 2 powi (53 + u)" using lo by simp
  then have "e < 53 + u"
    by (metis linorder_not_le one_le_numeral power_int_increasing)
  then have vu: "v \<le> u" using u by (simp add: v_def)
  define k where "k = m * 2 ^ nat (u - v)"
  have "a / 2 powi v = of_int m * 2 powi (u - v)"
    unfolding a by (simp add: power_int_diff)
  also have "\<dots> = of_int k" using vu by (simp add: k_def power_int_nonneg_exp)
  finally have q: "a / 2 powi v = of_int k" .
  then have r: "of_int k * 2 powi v = a" by (simp add: field_simps)
  have "(2::rat) ^ 53 * 2 powi u \<le> 2 ^ 53 * 2 powi 971"
    using u by (intro mult_left_mono power_int_increasing) auto
  with au have "a < 2 ^ 53 * 2 powi 971" by (rule less_le_trans)
  then have "a < 2 ^ 1024" by simp
  with apos q r show ?thesis
    by (simp add: to_double_def Let_def e_def[symmetric] v_def[symmetric])
qed

lemma to_double_exact:
  assumes "a = of_int m * 2 powi u" "\<bar>m\<bar> < 2 ^ 53" "- 1074 \<le> u" "u \<le> 971"
  shows "to_double a = Fin a"
proof -
  consider "m = 0" | "0 < m" | "m < 0" by linarith
  then show ?thesis
  proof cases
    case 1
    then show ?thesis using assms by simp
  next
    case 2
    then show ?thesis using assms by (intro to_double_exact_pos[of a m u]) auto
  next
    case 3
    then have "to_double (- a) = Fin (- a)"
      using assms by (intro to_double_exact_pos[of "- a" "- m" u]) auto
    then show ?thesis using to_double_neg[of "- a"] by (cases "to_double a") auto
  qed
qed

lemma to_double_of_int: "\<bar>n\<bar> < 2 ^ 53 \<Longrightarrow> to_double (of_int n) = Fin (of_int n)"
  by (rule to_double_exact[of _ n 0]) auto


lemma negate_negate [simp]: "negate (negate d) = d"
  by (cases d) auto

lemma num_sub_swap: "num_sub y x = negate (num_sub x y)"
proof (cases x; cases y)
  fix a b assume "x = Fin a" "y = Fin b"
  then show ?thesis using to_double_neg[of "a - b"] by simp
qed auto

lemma math_abs_negate [simp]: "math_abs (negate d) = math_abs d"
  by (cases d) auto

lemma negate_eq_zero [simp]: "negate d = Fin 0 \<longleftrightarrow> d = Fin 0"
  by (cases d) auto

lemma negate_eq_NaN [simp]: "negate d = NaN \<longleftrightarrow> d = NaN"
  by (cases d) auto

lemma greater_negate_zero: "greater_num (negate d) (Fin 0) = greater_num (Fin 0) d"
  by (cases d) auto

lemma greater_zero_negate: "greater_num (Fin 0) (negate d) = greater_num d (Fin 0)"
  by (cases d) auto

lemma sign_trichotomy:
  "d \<noteq> NaN \<Longrightarrow> d \<noteq> Fin 0 \<Longrightarrow> greater_num d (Fin 0) \<noteq> greater_num (Fin 0) d"
  by (cases d) auto

lemma num_div_NaN [simp]: "num_div NaN y = NaN"
  by simp

lemma num_mul_NaN [simp]: "num_mul NaN y = NaN"
  by simp

section \<open>Properties of the strings\<close>

lemma split_nonempty [simp]: "split sep s \<noteq> []"
  by (induction s) (auto split: list.splits)


lemma split_pieces_no_sep: "p \<in> set (split sep s) \<Longrightarrow> sep \<notin> set p"
proof (induction s arbitrary: p)
  case Nil
  then show ?case by simp
next
  case (Cons c cs)
  show ?case
  proof (cases "c = sep")
    case True
    with Cons show ?thesis by auto
  next
    case False
    obtain q qs where q: "split sep cs = q # qs"
      using split_nonempty[of sep cs] by (cases "split sep cs") auto
    with False Cons.prems have "p = c # q \<or> p \<in> set qs" by simp
    then show ?thesis
      using Cons.IH[of q] Cons.IH[of p] q False by auto
  qed
qed

lemma split_no_sep: "sep \<notin> set s \<Longrightarrow> split sep s = [s]"
  by (induction s) auto

lemma replace_only_suffix:
  "endsWith v c \<Longrightarrow> c \<notin> set (butlast v) \<Longrightarrow> replace v c = butlast v"
proof -
  assume e: "endsWith v c" and n: "c \<notin> set (butlast v)"
  from e have "v = butlast v @ [c]" by (auto simp: endsWith_def)
  then have "remove1 c v = remove1 c (butlast v @ [c])" by simp
  also have "\<dots> = butlast v" using n by (simp add: remove1_append)
  finally show ?thesis by (simp add: replace_def)
qed

lemma includes_str_iff: "includes_str s pat \<longleftrightarrow> (\<exists>a b. s = a @ pat @ b)"
proof (induction s)
  case Nil
  then show ?case by auto
next
  case (Cons c cs)
  show ?case
  proof
    assume "includes_str (c # cs) pat"
    then consider "take (length pat) (c # cs) = pat" | "includes_str cs pat" by auto
    then show "\<exists>a b. c # cs = a @ pat @ b"
    proof cases
      case 1
      then have "c # cs = [] @ pat @ drop (length pat) (c # cs)"
        by (metis append_Nil append_take_drop_id)
      then show ?thesis by blast
    next
      case 2
      with Cons.IH obtain a b where "cs = a @ pat @ b" by auto
      then have "c # cs = (c # a) @ pat @ b" by simp
      then show ?thesis by blast
    qed
  next
    assume "\<exists>a b. c # cs = a @ pat @ b"
    then obtain a b where ab: "c # cs = a @ pat @ b" by auto
    show "includes_str (c # cs) pat"
    proof (cases a)
      case Nil
      with ab have "take (length pat) (c # cs) = pat" by simp
      then show ?thesis by simp
    next
      case (Cons x xs)
      with ab have "cs = xs @ pat @ b" by simp
      with Cons.IH show ?thesis by auto
    qed
  qed
qed

lemma toLowerCase_append: "toLowerCase (a @ b) = toLowerCase a @ toLowerCase b"
  by (simp add: toLowerCase_def)





section \<open>Properties of the printed numbers\<close>

lemma digits_of_small: "0 \<le> n \<Longrightarrow> n < 10 \<Longrightarrow> digits_of n = [nat (48 + n)]"
  by (simp add: digits_of.simps)

lemma digits_of_digits: "0 \<le> n \<Longrightarrow> list_all is_digit (digits_of n) \<and> digits_of n \<noteq> []"
proof (induction n rule: digits_of.induct)
  case (1 n)
  show ?case
  proof (cases "n < 10")
    case True
    with "1.prems" show ?thesis
      by (auto simp: digits_of.simps[of n] is_digit_def nat_le_iff le_nat_iff)
  next
    case False
    with "1.prems" have "0 \<le> n div 10" by simp
    with "1.IH" False have "list_all is_digit (digits_of (n div 10))" by simp
    moreover have "0 \<le> n mod 10" "n mod 10 < 10" by simp_all
    then have "is_digit (nat (48 + n mod 10))"
      by (auto simp: is_digit_def nat_le_iff le_nat_iff)
    ultimately show ?thesis using False by (simp add: digits_of.simps[of n])
  qed
qed

lemma digits_of_length3: "100 \<le> n \<Longrightarrow> 3 \<le> length (digits_of n)"
proof -
  assume n: "100 \<le> n"
  then have a: "digits_of n = digits_of (n div 10) @ [nat (48 + n mod 10)]"
    by (simp add: digits_of.simps[of n])
  from n have "\<not> n div 10 < 10" by simp
  then have b: "digits_of (n div 10) = digits_of (n div 10 div 10) @ [nat (48 + n div 10 mod 10)]"
    by (simp add: digits_of.simps[of "n div 10"])
  from n have "0 \<le> n div 10 div 10" by simp
  then have "digits_of (n div 10 div 10) \<noteq> []" using digits_of_digits by blast
  then have "1 \<le> length (digits_of (n div 10 div 10))" by (cases "digits_of (n div 10 div 10)") auto
  with a b show ?thesis by simp
qed

lemma is_digit_not_minus: "is_digit c \<Longrightarrow> c \<noteq> 45"
  by (auto simp: is_digit_def)

lemma toFixed2_zero: "toFixed2 (Fin 0) = str ''0.00''"
proof -
  have "\<lfloor>1 / 2 :: rat\<rfloor> = 0" by (rule floor_unique) simp_all
  then show ?thesis by (simp add: toFixed2_def digits_of_small)
qed

lemma two_decimal_places_shape:
  assumes "list_all is_digit m" "3 \<le> length m" and that: "sign = [] \<or> sign = [45]"
  shows "two_decimal_places (sign @ take (length m - 2) m @ [46] @ drop (length m - 2) m)"
proof -
  obtain f2 f1 d ds where r: "rev m = f2 # f1 # d # ds"
    using assms(2) by (cases "rev m"; cases "tl (rev m)"; cases "tl (tl (rev m))") (auto simp: Suc_le_eq dest: arg_cong[where f = length])
  then have m: "m = rev ds @ [d, f1, f2]" by (metis rev.simps(2) append.assoc append_Cons append_Nil rev_swap)
  have dg: "is_digit f2" "is_digit f1" "is_digit d" "list_all is_digit ds"
    using assms(1) unfolding m by (auto simp: list_all_iff)
  have t: "take (length m - 2) m = rev ds @ [d]" "drop (length m - 2) m = [f1, f2]"
    unfolding m by simp_all
  let ?body = "(rev ds @ [d]) @ [46] @ [f1, f2]"
  have hd_digit: "take 1 ?body \<noteq> [45]"
    using dg is_digit_not_minus by (cases "rev ds") (auto simp: list_all_iff)
  have "decimals_reversed (rev ?body)" using dg by (simp add: list_all_iff)
  then show ?thesis using that hd_digit unfolding t two_decimal_places_def by auto
qed

lemma toFixed2_two_decimal_places:
  assumes "\<bar>x\<bar> < 10 ^ 21"
  shows "two_decimal_places (toFixed2 (Fin x))"
proof -
  define n where "n = \<lfloor>\<bar>x\<bar> * 100 + 1 / 2\<rfloor>"
  define m where "m = (if n < 100 then replicate (3 - length (digits_of n)) 48 else []) @ digits_of n"
  have n0: "0 \<le> n" unfolding n_def by simp
  have dg: "list_all is_digit (digits_of n)" using digits_of_digits[OF n0] by simp
  have "list_all is_digit m" using dg by (auto simp: m_def is_digit_def list_all_iff)
  moreover have "3 \<le> length m" using digits_of_length3[of n] by (auto simp: m_def)
  ultimately have "two_decimal_places ((if x < 0 then [45] else []) @ take (length m - 2) m @ [46] @ drop (length m - 2) m)"
    by (intro two_decimal_places_shape) auto
  moreover have "toFixed2 (Fin x) =
      (if x < 0 then [45] else []) @ take (length m - 2) m @ [46] @ drop (length m - 2) m"
    using assms by (simp add: toFixed2_def Let_def m_def n_def)
  ultimately show ?thesis by simp
qed

section \<open>Properties of the status\<close>

lemma symbols_distinct [simp]:
  "unchanged \<noteq> increased" "unchanged \<noteq> decreased" "increased \<noteq> decreased"
  "increased \<noteq> unchanged" "decreased \<noteq> unchanged" "decreased \<noteq> increased"
  by (simp_all add: unchanged_def increased_def decreased_def)

lemma isWithinThreshold_negate [simp]: "isWithinThreshold (negate d) t = isWithinThreshold d t"
  by (simp add: isWithinThreshold_def)

lemma isWithinThreshold_NaN [simp]: "isWithinThreshold NaN t = False"
  by (simp add: isWithinThreshold_def)

lemma status_NaN [simp]: "status NaN key t = decreased"
  by (simp add: status_def)

lemma shouldApplyThreshold_iff:
  "shouldApplyThreshold key \<longleftrightarrow> (\<exists>a w b. key = a @ w @ b \<and> toLowerCase w = str ''time'')"
proof
  assume "shouldApplyThreshold key"
  then obtain a b where ab: "toLowerCase key = a @ str ''time'' @ b"
    unfolding shouldApplyThreshold_def includes_str_iff by blast
  define n where "n = length a"
  have len: "length (toLowerCase key) = length key" by (simp add: toLowerCase_def)
  have "key = take n key @ take 4 (drop n key) @ drop 4 (drop n key)"
    by (simp only: append_take_drop_id)
  moreover have "toLowerCase (take 4 (drop n key)) = take 4 (drop n (toLowerCase key))"
    by (simp add: toLowerCase_def take_map drop_map)
  then have "toLowerCase (take 4 (drop n key)) = str ''time''"
    unfolding ab n_def by simp
  ultimately show "\<exists>a w b. key = a @ w @ b \<and> toLowerCase w = str ''time''" by blast
next
  assume "\<exists>a w b. key = a @ w @ b \<and> toLowerCase w = str ''time''"
  then obtain a w b where "key = a @ w @ b" "toLowerCase w = str ''time''" by blast
  then have "toLowerCase key = toLowerCase a @ str ''time'' @ toLowerCase b"
    by (simp add: toLowerCase_append)
  then show "shouldApplyThreshold key"
    unfolding shouldApplyThreshold_def includes_str_iff by blast
qed

section \<open>Properties of the diagnostics object\<close>

lemma str_proto_neq [simp]:
  "str ''__proto__'' \<noteq> str ''value''" "str ''__proto__'' \<noteq> str ''unit''"
  by simp_all

lemma get_put_same: "get (put d k m) k = Metric m"
  by (auto simp: get_def put_def update_conv' split: option.splits)

lemma get_put_other:
  "k' \<noteq> k \<Longrightarrow> get (put d k m) k' = Metric x \<longleftrightarrow> get d k' = Metric x"
  by (auto simp: get_def put_def update_conv' split: option.splits if_splits)


lemma parse_line_entry:
  "length (split 58 l) = 2 \<Longrightarrow> \<exists>m. \<forall>d. parse_line d l = put d (trim (split 58 l ! 0)) m"
  by (auto simp: parse_line_def Let_def)

lemma parse_line_skip: "length (split 58 l) \<noteq> 2 \<Longrightarrow> parse_line d l = d"
  by (simp add: parse_line_def Let_def)






lemma foldl_parse_line_last:
  assumes "filter (\<lambda>l. length (split 58 l) = 2 \<and> trim (split 58 l ! 0) = key) lines \<noteq> []"
  shows "get (foldl parse_line d lines) key
           = get (parse_line d' (last (filter (\<lambda>l. length (split 58 l) = 2
                                               \<and> trim (split 58 l ! 0) = key) lines))) key
         \<and> (\<exists>x. get (foldl parse_line d lines) key = Metric x)"
  using assms
proof (induction lines rule: rev_induct)
  case Nil
  then show ?case by simp
next
  case (snoc l ls)
  let ?P = "\<lambda>l. length (split 58 l) = 2 \<and> trim (split 58 l ! 0) = key"
  show ?case
  proof (cases "?P l")
    case True
    then obtain m where m: "\<And>d. parse_line d l = put d key m"
      using parse_line_entry by blast
    then show ?thesis using True by (simp add: get_put_same)
  next
    case False
    with snoc.prems have ne: "filter ?P ls \<noteq> []" by simp
    from snoc.IH[OF ne] have
      e: "get (foldl parse_line d ls) key = get (parse_line d' (last (filter ?P ls))) key"
      and "\<exists>x. get (foldl parse_line d ls) key = Metric x"
      by blast+
    then obtain x where x: "get (foldl parse_line d ls) key = Metric x" by blast
    have "get (parse_line (foldl parse_line d ls) l) key = Metric x"
    proof (cases "length (split 58 l) = 2")
      case n: False
      then show ?thesis using x by (simp add: parse_line_skip)
    next
      case n: True
      then obtain m where m: "\<And>d. parse_line d l = put d (trim (split 58 l ! 0)) m"
        using parse_line_entry by blast
      from n False have "key \<noteq> trim (split 58 l ! 0)" by auto
      then show ?thesis using x m get_put_other by metis
    qed
    then show ?thesis using False x e by simp
  qed
qed

lemma parseDiagnostics_line:
  "10 \<notin> set l \<Longrightarrow> parseDiagnostics l = parse_line \<lparr>entries = [], prototype = None\<rparr> l"
  by (simp add: parseDiagnostics_def split_no_sep)

lemma distinct_put: "distinct (map fst (entries d)) \<Longrightarrow> distinct (map fst (entries (put d k m)))"
  by (simp add: put_def distinct_update)

lemma distinct_parse_line:
  "distinct (map fst (entries d)) \<Longrightarrow> distinct (map fst (entries (parse_line d l)))"
  by (auto simp: parse_line_def Let_def distinct_put)

lemma distinct_foldl_parse_line:
  "distinct (map fst (entries d)) \<Longrightarrow> distinct (map fst (entries (foldl parse_line d ls)))"
  by (induction ls arbitrary: d) (simp_all add: distinct_parse_line)

section \<open>Properties of the rows\<close>

lemma or_zero_defined [simp]: "or_zero v \<noteq> Undefined"
  by (cases v) (auto simp: or_zero_def)

lemma or_zero_Metric [simp]: "or_zero (Metric m) = Metric m"
  by (simp add: or_zero_def)

lemma or_zero_Undefined [simp]: "or_zero Undefined = Num (Fin 0)"
  by (simp add: or_zero_def)

lemma row_eq:
  "row prev cur t key = Some (row_text (or_zero (get prev key)) (or_zero (get cur key)) t key)"
  by (simp add: row_def Let_def)

lemma rows_eq:
  "rows prev cur t keys markdown =
     Some (markdown @ concat (map (\<lambda>key. row_text (or_zero (get prev key)) (or_zero (get cur key)) t key) keys))"
  by (induction keys arbitrary: markdown) (simp_all add: row_eq)

lemma compareDiagnostics_eq:
  "compareDiagnostics prev current t =
     Some (header
       @ concat (map (\<lambda>key. row_text (or_zero (get (parseDiagnostics prev) key))
                                      (or_zero (get (parseDiagnostics current) key)) t key)
                  (for_in_keys (parseDiagnostics current)))
       @ footer)"
  by (simp add: compareDiagnostics_def Let_def rows_eq)


lemma diffPercentage_NaN:
  "diff pv cv = NaN \<Longrightarrow> diffPercentage pv cv = Fin 0"
  by (simp add: diffPercentage_def Let_def)

lemma diff_undefined_prev: "dot_value pv = None \<Longrightarrow> diff pv cv = NaN"
  by (cases "to_number (dot_value cv)") (simp_all add: diff_def)


lemma diff_NaN_cur: "dot_value cv = Some NaN \<Longrightarrow> diff pv cv = NaN"
  by (simp add: diff_def)


lemma row_text_NaN:
  "diff pv cv = NaN \<Longrightarrow>
   row_text pv cv t key =
     str ''| '' @ key @ str '' | '' @ cell pv @ str '' | '' @ cell cv @ str '' | ''
       @ decreased @ str '' (0.00%) |'' @ [10]"
  by (simp add: row_text_def diffPercentage_NaN toFixed2_zero)

lemma diff_self:
  "diff v v = (case dot_value v of Some (Fin x) \<Rightarrow> Fin 0 | _ \<Rightarrow> NaN)"
  by (cases "dot_value v"; cases "the (dot_value v)") (auto simp: diff_def)

lemma diffPercentage_self: "diffPercentage v v = Fin 0"
proof (cases "dot_value v")
  case None
  then show ?thesis by (simp add: diffPercentage_NaN diff_undefined_prev)
next
  case (Some n)
  then show ?thesis
    by (cases n) (auto simp: diffPercentage_def diff_def Let_def)
qed

lemma row_text_self:
  "row_text v v t key =
     str ''| '' @ key @ str '' | '' @ cell v @ str '' | '' @ cell v @ str '' | ''
       @ status (diff v v) key t @ str '' (0.00%) |'' @ [10]"
  by (simp add: row_text_def diffPercentage_self toFixed2_zero)

lemma status_self_finite:
  "dot_value v = Some (Fin x) \<Longrightarrow> status (diff v v) key t = unchanged"
  by (simp add: diff_self status_def)

section \<open>Evaluating the functions on concrete inputs\<close>

text \<open>
  The simplifier evaluates the string functions by their equations. For the numbers it
  needs the floor of a fraction and the rounding of the rationals that occur; the
  binary exponent and the rounded significand of each are given and checked.
\<close>

lemma floor_rat_numeral [simp]:
  "\<lfloor>numeral a / numeral b :: rat\<rfloor> = numeral a div numeral b"
  using floor_divide_of_int_eq[of "numeral a" "numeral b", where 'a = rat] by simp

lemma replicate_numeral [simp]:
  "replicate (numeral k) x = x # replicate (pred_numeral k) x"
  by (simp add: numeral_eq_Suc)

lemma to_double_numeral [simp]:
  "numeral k < (2::int) ^ 53 \<Longrightarrow> to_double (numeral k) = Fin (numeral k)"
  using to_double_of_int[of "numeral k"] by simp

lemma to_double_one [simp]: "to_double 1 = Fin 1"
  using to_double_of_int[of 1] by simp

lemmas string_eval =
  trim_def trimStart_def is_whitespace_def endsWith_def replace_def is_digit_def
  is_radix_digit_def digits_value_def digit_value_def Let_def

lemmas number_eval =
  positive_to_string_def decimal_exponent_def shortest_decimal.simps strip_zeros.simps
  digits_of.simps Let_def

lemmas row_eval =
  row_text_def cell_def diff_def diffPercentage_def status_def isWithinThreshold_def
  shouldApplyThreshold_def toLowerCase_def

lemmas object_eval =
  get_def or_zero_def for_in_keys_def own_keys_def is_array_index_def is_digit_def
  object_prototype_keys_def

lemmas parse_eval =
  parseDiagnostics_def parse_line_def parseInt_def parseFloat_def put_def string_eval

lemma to_double_6_5: "to_double (6 / 5) = Fin (5404319552844595 / 4503599627370496)"
  using to_double_eval(1)[where a = "6 / 5" and e = "0" and u = "- 52" and m = "5404319552844595" and r = "5404319552844595 / 4503599627370496"]
  by simp

lemma to_double_29_20: "to_double (29 / 20) = Fin (6530219459687219 / 4503599627370496)"
  using to_double_eval(1)[where a = "29 / 20" and e = "0" and u = "- 52" and m = "6530219459687219" and r = "6530219459687219 / 4503599627370496"]
  by simp

lemma to_double_1_4: "to_double (1 / 4) = Fin (1 / 4)"
  by (rule to_double_exact[where m = "1" and u = "- 2"]) simp_all

lemma to_double_quotient: "to_double (1125899906842624 / 6530219459687219) = Fin (1552965388748447 / 9007199254740992)"
  using to_double_eval(1)[where a = "1125899906842624 / 6530219459687219" and e = "- 3" and u = "- 55" and m = "6211861554993788" and r = "1552965388748447 / 9007199254740992"]
  by simp

lemma to_double_percentage: "to_double (38824134718711175 / 2251799813685248) = Fin (4853016839838897 / 281474976710656)"
  using to_double_eval(1)[where a = "38824134718711175 / 2251799813685248" and e = "4" and u = "- 48" and m = "4853016839838897" and r = "4853016839838897 / 281474976710656"]
  by simp

lemma to_double_11_10: "to_double (11 / 10) = Fin (2476979795053773 / 2251799813685248)"
  using to_double_eval(1)[where a = "11 / 10" and e = "0" and u = "- 52" and m = "4953959590107546" and r = "2476979795053773 / 2251799813685248"]
  by simp

lemma to_double_7_5: "to_double (7 / 5) = Fin (3152519739159347 / 2251799813685248)"
  using to_double_eval(1)[where a = "7 / 5" and e = "0" and u = "- 52" and m = "6305039478318694" and r = "3152519739159347 / 2251799813685248"]
  by simp

lemma to_double_3_2: "to_double (3 / 2) = Fin (3 / 2)"
  by (rule to_double_exact[where m = "3" and u = "- 1"]) simp_all

lemma to_double_36_25: "to_double (36 / 25) = Fin (3242591731706757 / 2251799813685248)"
  using to_double_eval(1)[where a = "36 / 25" and e = "0" and u = "- 52" and m = "6485183463413514" and r = "3242591731706757 / 2251799813685248"]
  by simp

lemma to_double_1_2: "to_double (1 / 2) = Fin (1 / 2)"
  by (rule to_double_exact[where m = "1" and u = "- 1"]) simp_all

lemma to_double_2007_1000: "to_double (2007 / 1000) = Fin (4519362226066293 / 2251799813685248)"
  using to_double_eval(1)[where a = "2007 / 1000" and e = "1" and u = "- 51" and m = "4519362226066293" and r = "4519362226066293 / 2251799813685248"]
  by simp

lemma to_double_boundary_delta: "to_double (4519362226066293 / 2251799813685248) = Fin (4519362226066293 / 2251799813685248)"
  by (rule to_double_exact[where m = "4519362226066293" and u = "- 51"]) simp_all

lemma to_double_boundary_product: "to_double (564920278258286625 / 281474976710656) = Fin (8826879347785729 / 4398046511104)"
  using to_double_eval(1)[where a = "564920278258286625 / 281474976710656" and e = "10" and u = "- 42" and m = "8826879347785729" and r = "8826879347785729 / 4398046511104"]
  by simp

lemma to_double_21_10: "to_double (21 / 10) = Fin (4728779608739021 / 2251799813685248)"
  using to_double_eval(1)[where a = "21 / 10" and e = "1" and u = "- 51" and m = "4728779608739021" and r = "4728779608739021 / 2251799813685248"]
  by simp

lemma to_double_201_100: "to_double (201 / 100) = Fin (1131529406376837 / 562949953421312)"
  using to_double_eval(1)[where a = "201 / 100" and e = "1" and u = "- 51" and m = "4526117625507348" and r = "1131529406376837 / 562949953421312"]
  by simp

lemma to_double_251_125: "to_double (251 / 125) = Fin (2260807012939989 / 1125899906842624)"
  using to_double_eval(1)[where a = "251 / 125" and e = "1" and u = "- 51" and m = "4521614025879978" and r = "2260807012939989 / 1125899906842624"]
  by simp

lemma parseFloat_1_200 [simplified]: "parseFloat (str ''1.200'') = Fin (5404319552844595 / 4503599627370496)"
  by (simp add: parseFloat_def string_eval to_double_6_5)

lemma parseFloat_1_450 [simplified]: "parseFloat (str ''1.450'') = Fin (6530219459687219 / 4503599627370496)"
  by (simp add: parseFloat_def string_eval to_double_29_20)

lemma parse_example_previous [simplified]:
  "parseDiagnostics (str ''Check time: 1.200s'' @ [10] @ str ''Memory used: 100K'')
     = \<lparr>entries = [(str ''Check time'', \<lparr>m_value = Fin (5404319552844595 / 4503599627370496), m_unit = Seconds\<rparr>),
                   (str ''Memory used'', \<lparr>m_value = Fin 100, m_unit = Kilo\<rparr>)],
         prototype = None\<rparr>"
  by (simp add: parseDiagnostics_def parse_line_def put_def parseInt_def string_eval
      parseFloat_1_200)

lemma parse_example_current [simplified]:
  "parseDiagnostics (str ''Check time: 1.450s'' @ [10] @ str ''Memory used: 100K'' @ [10]
                      @ str ''Files: 42'')
     = \<lparr>entries = [(str ''Check time'', \<lparr>m_value = Fin (6530219459687219 / 4503599627370496), m_unit = Seconds\<rparr>),
                   (str ''Memory used'', \<lparr>m_value = Fin 100, m_unit = Kilo\<rparr>),
                   (str ''Files'', \<lparr>m_value = Fin 42, m_unit = NoUnit\<rparr>)],
         prototype = None\<rparr>"
  by (simp add: parseDiagnostics_def parse_line_def put_def parseInt_def string_eval
      parseFloat_1_450)

lemma parse_empty [simplified]:
  "parseDiagnostics [] = \<lparr>entries = [], prototype = None\<rparr>"
  by (simp add: parse_eval)

lemma parse_files_42 [simplified]:
  "parseDiagnostics (str ''Files: 42'')
     = \<lparr>entries = [(str ''Files'', \<lparr>m_value = Fin 42, m_unit = NoUnit\<rparr>)],
         prototype = None\<rparr>"
  by (simp add: parse_eval)

lemma parse_x_abc [simplified]:
  "parseDiagnostics (str ''x: abc'')
     = \<lparr>entries = [(str ''x'', \<lparr>m_value = NaN, m_unit = NoUnit\<rparr>)], prototype = None\<rparr>"
  by (simp add: parse_eval)

lemma parse_x_1 [simplified]:
  "parseDiagnostics (str ''x: 1'')
     = \<lparr>entries = [(str ''x'', \<lparr>m_value = Fin 1, m_unit = NoUnit\<rparr>)], prototype = None\<rparr>"
  by (simp add: parse_eval)

lemma parse_x_2 [simplified]:
  "parseDiagnostics (str ''x: 2'')
     = \<lparr>entries = [(str ''x'', \<lparr>m_value = Fin 2, m_unit = NoUnit\<rparr>)], prototype = None\<rparr>"
  by (simp add: parse_eval)

lemma parse_x_3 [simplified]:
  "parseDiagnostics (str ''x: 3'')
     = \<lparr>entries = [(str ''x'', \<lparr>m_value = Fin 3, m_unit = NoUnit\<rparr>)], prototype = None\<rparr>"
  by (simp add: parse_eval)

lemma parse_a_infinity [simplified]:
  "parseDiagnostics (str ''a: Infinitys'')
     = \<lparr>entries = [(str ''a'', \<lparr>m_value = PInf, m_unit = Seconds\<rparr>)], prototype = None\<rparr>"
  by (simp add: parse_eval)

lemma parse_a_1 [simplified]:
  "parseDiagnostics (str ''a: 1'')
     = \<lparr>entries = [(str ''a'', \<lparr>m_value = Fin 1, m_unit = NoUnit\<rparr>)], prototype = None\<rparr>"
  by (simp add: parse_eval)

lemma to_string_1_2 [simplified]: "number_to_string (Fin (5404319552844595 / 4503599627370496)) = str ''1.2''"
  by (simp add: number_eval to_double_11_10 to_double_6_5)

lemma to_string_1_45 [simplified]: "number_to_string (Fin (6530219459687219 / 4503599627370496)) = str ''1.45''"
  by (simp add: number_eval to_double_7_5 to_double_3_2 to_double_36_25 to_double_29_20)

lemma to_string_100 [simplified]: "number_to_string (Fin 100) = str ''100''"
  by (simp add: number_eval)

lemma to_string_42 [simplified]: "number_to_string (Fin 42) = str ''42''"
  by (simp add: number_eval)

lemma to_string_1 [simplified]: "number_to_string (Fin 1) = str ''1''"
  by (simp add: number_eval)

lemma to_string_2 [simplified]: "number_to_string (Fin 2) = str ''2''"
  by (simp add: number_eval)

lemma toFixed2_percentage [simplified]: "toFixed2 (Fin (4853016839838897 / 281474976710656)) = str ''17.24''"
  by (simp add: toFixed2_def number_eval)

lemma toFixed2_50 [simplified]: "toFixed2 (Fin 50) = str ''50.00''"
  by (simp add: toFixed2_def number_eval)

lemma row_check_time [simplified]:
  "row_text (Metric \<lparr>m_value = Fin (5404319552844595 / 4503599627370496), m_unit = Seconds\<rparr>)
            (Metric \<lparr>m_value = Fin (6530219459687219 / 4503599627370496), m_unit = Seconds\<rparr>)
            (Fin 300) (str ''Check time'')
     = str ''| Check time | 1.2s | 1.45s | '' @ unchanged @ str '' (+17.24%) |'' @ [10]"
  by (simp add: row_eval to_string_1_2 to_string_1_45 to_double_1_4 to_double_quotient
      to_double_percentage toFixed2_percentage)

lemma row_memory_used [simplified]:
  "row_text (Metric \<lparr>m_value = Fin 100, m_unit = Kilo\<rparr>)
            (Metric \<lparr>m_value = Fin 100, m_unit = Kilo\<rparr>)
            (Fin 300) (str ''Memory used'')
     = str ''| Memory used | 100K | 100K | '' @ unchanged @ str '' (0.00%) |'' @ [10]"
  by (simp add: row_text_self cell_def status_self_finite to_string_100)

lemma row_files [simplified]:
  "row_text (Num (Fin 0)) (Metric \<lparr>m_value = Fin 42, m_unit = NoUnit\<rparr>)
            (Fin 300) (str ''Files'')
     = str ''| Files | undefinedundefined | 42 | '' @ decreased @ str '' (0.00%) |'' @ [10]"
  by (simp add: row_text_NaN diff_undefined_prev cell_def to_string_42)

lemma row_x_nan [simplified]:
  "row_text (Metric \<lparr>m_value = NaN, m_unit = NoUnit\<rparr>)
            (Metric \<lparr>m_value = NaN, m_unit = NoUnit\<rparr>) t (str ''x'')
     = str ''| x | NaN | NaN | '' @ decreased @ str '' (0.00%) |'' @ [10]"
  by (simp add: row_text_NaN diff_NaN_cur cell_def)

lemma row_a_infinity [simplified]:
  "row_text (Metric \<lparr>m_value = PInf, m_unit = Seconds\<rparr>)
            (Metric \<lparr>m_value = Fin 1, m_unit = NoUnit\<rparr>) (Fin 300) (str ''a'')
     = str ''| a | Infinitys | 1 | '' @ decreased @ str '' (-Infinity%) |'' @ [10]"
  by (simp add: row_eval toFixed2_def to_string_1)

lemma row_x_1_2 [simplified]:
  "row_text (Metric \<lparr>m_value = Fin 1, m_unit = NoUnit\<rparr>)
            (Metric \<lparr>m_value = Fin 2, m_unit = NoUnit\<rparr>) (Fin 300) (str ''x'')
     = str ''| x | 1 | 2 | '' @ increased @ str '' (+50.00%) |'' @ [10]"
  by (simp add: row_eval to_string_1 to_string_2 to_double_1_2 toFixed2_50)

lemma parse_check_time_0 [simplified]:
  "parseDiagnostics (str ''Check time: 0s'')
     = \<lparr>entries = [(str ''Check time'', \<lparr>m_value = Fin 0, m_unit = Seconds\<rparr>)],
         prototype = None\<rparr>"
  by (simp add: parse_eval)

lemma parse_check_time_2_007 [simplified]:
  "parseDiagnostics (str ''Check time: 2.007s'')
     = \<lparr>entries = [(str ''Check time'', \<lparr>m_value = Fin (4519362226066293 / 2251799813685248), m_unit = Seconds\<rparr>)],
         prototype = None\<rparr>"
  by (simp add: parse_eval to_double_2007_1000)

lemma to_string_2_007 [simplified]: "number_to_string (Fin (4519362226066293 / 2251799813685248)) = str ''2.007''"
  by (simp add: number_eval to_double_21_10 to_double_201_100 to_double_251_125
      to_double_2007_1000)

lemma toFixed2_100 [simplified]: "toFixed2 (Fin 100) = str ''100.00''"
  by (simp add: toFixed2_def number_eval)

lemma row_check_time_boundary [simplified]:
  "row_text (Metric \<lparr>m_value = Fin 0, m_unit = Seconds\<rparr>)
            (Metric \<lparr>m_value = Fin (4519362226066293 / 2251799813685248), m_unit = Seconds\<rparr>)
            (Fin 2007) (str ''Check time'')
     = str ''| Check time | 0s | 2.007s | '' @ increased @ str '' (+100.00%) |'' @ [10]"
  by (simp add: row_eval to_string_2_007 to_double_boundary_delta to_double_boundary_product
      toFixed2_100)

lemma compare_example [simplified]:
  "compareDiagnostics
     (str ''Check time: 1.200s'' @ [10] @ str ''Memory used: 100K'')
     (str ''Check time: 1.450s'' @ [10] @ str ''Memory used: 100K'' @ [10] @ str ''Files: 42'')
     (Fin 300)
   = Some (header
       @ str ''| Check time | 1.2s | 1.45s | '' @ unchanged @ str '' (+17.24%) |'' @ [10]
       @ str ''| Memory used | 100K | 100K | '' @ unchanged @ str '' (0.00%) |'' @ [10]
       @ str ''| Files | undefinedundefined | 42 | '' @ decreased @ str '' (0.00%) |'' @ [10]
       @ footer)"
  by (simp add: compareDiagnostics_eq parse_example_previous parse_example_current
      object_eval row_check_time row_memory_used row_files)

section \<open>The claims\<close>

subsection \<open>A metric absent from the previous snapshot\<close>

text \<open>
  Claim C1 says that a metric of the current snapshot that the previous snapshot lacks
  is compared against a previous metric of value 0 and no unit: its row is kept, its
  delta is the current value minus 0, and the row shows 0 as the previous value. The
  code keeps the row and means to fall back on 0 (\<^verbatim>\<open>previousDiagnostics[key] || 0\<close>),
  but then reads \<^verbatim>\<open>.value\<close> and \<^verbatim>\<open>.unit\<close> of the number 0, which are
  \<^verbatim>\<open>undefined\<close>. For an empty previous text and the current text \<^verbatim>\<open>Files: 42\<close> the
  lookup gives \<^verbatim>\<open>undefined\<close>, the delta is not a number, and the row shows
  \<^verbatim>\<open>undefinedundefined\<close> as the previous value, the decreased symbol and 0.00%.
\<close>

theorem absent_previous_metric:
  "get (parseDiagnostics []) (str ''Files'') = Undefined
   \<and> diff (or_zero (get (parseDiagnostics []) (str ''Files'')))
           (or_zero (get (parseDiagnostics (str ''Files: 42'')) (str ''Files''))) = NaN
   \<and> compareDiagnostics [] (str ''Files: 42'') (Fin 300)
       = Some (header
           @ str ''| Files | undefinedundefined | 42 | '' @ decreased @ str '' (0.00%) |'' @ [10]
           @ footer)"
  by (simp add: compareDiagnostics_eq parse_empty parse_files_42 object_eval row_files
      diff_undefined_prev)

subsection \<open>The example of the specification\<close>

text \<open>
  Claim C2 gives the rows for the previous text
  \<^verbatim>\<open>Check time: 1.200s\<close>, \<^verbatim>\<open>Memory used: 100K\<close> and the current text
  \<^verbatim>\<open>Check time: 1.450s\<close>, \<^verbatim>\<open>Memory used: 100K\<close>, \<^verbatim>\<open>Files: 42\<close> at threshold 300.
  None of the three rows it gives is in the report: the check time changes by 250 ms,
  which is within the threshold, so its status is the unchanged symbol; a percentage of
  0 gets no plus sign; and the row of \<^verbatim>\<open>Files\<close> is the one of claim C1.
\<close>

theorem example_rows_counterexample:
  "\<exists>report.
     compareDiagnostics
       (str ''Check time: 1.200s'' @ [10] @ str ''Memory used: 100K'')
       (str ''Check time: 1.450s'' @ [10] @ str ''Memory used: 100K'' @ [10] @ str ''Files: 42'')
       (Fin 300) = Some report
     \<and> \<not> includes_str report
           (str ''Check time | 1.2s | 1.45s | '' @ increased @ str '' (+17.24%)'')
     \<and> \<not> includes_str report
           (str ''Memory used | 100K | 100K | '' @ unchanged @ str '' (+0.00%)'')
     \<and> \<not> includes_str report
           (str ''Files | 0 | 42 | '' @ increased @ str '' (+100.00%)'')"
  by (simp add: compare_example header_def footer_def unchanged_def increased_def
      decreased_def)

text \<open>
  Claim C2, amended. The report of the example consists of the header, three rows and
  the footer. The first two rows are
  \<^verbatim>\<open>| Check time | 1.2s | 1.45s | \<close>unchanged\<^verbatim>\<open> (+17.24%) |\<close> and
  \<^verbatim>\<open>| Memory used | 100K | 100K | \<close>unchanged\<^verbatim>\<open> (0.00%) |\<close>; the third is the row of
  \<^verbatim>\<open>Files\<close>, with 42 as the new value.
\<close>

theorem example_rows:
  "\<exists>previous_cell status_cell.
     compareDiagnostics
       (str ''Check time: 1.200s'' @ [10] @ str ''Memory used: 100K'')
       (str ''Check time: 1.450s'' @ [10] @ str ''Memory used: 100K'' @ [10] @ str ''Files: 42'')
       (Fin 300)
     = Some (header
         @ str ''| Check time | 1.2s | 1.45s | '' @ unchanged @ str '' (+17.24%) |'' @ [10]
         @ str ''| Memory used | 100K | 100K | '' @ unchanged @ str '' (0.00%) |'' @ [10]
         @ str ''| Files | '' @ previous_cell @ str '' | 42 | '' @ status_cell @ str '' |''
         @ [10]
         @ footer)"
proof -
  have "compareDiagnostics
       (str ''Check time: 1.200s'' @ [10] @ str ''Memory used: 100K'')
       (str ''Check time: 1.450s'' @ [10] @ str ''Memory used: 100K'' @ [10] @ str ''Files: 42'')
       (Fin 300)
     = Some (header
         @ str ''| Check time | 1.2s | 1.45s | '' @ unchanged @ str '' (+17.24%) |'' @ [10]
         @ str ''| Memory used | 100K | 100K | '' @ unchanged @ str '' (0.00%) |'' @ [10]
         @ str ''| Files | '' @ str ''undefinedundefined'' @ str '' | 42 | ''
         @ (decreased @ str '' (0.00%)'') @ str '' |'' @ [10]
         @ footer)"
    by (simp add: compare_example)
  then show ?thesis by blast
qed

subsection \<open>A snapshot compared with itself\<close>

text \<open>
  Claim C3 says that comparing an input with itself gives the unchanged symbol and 0.00%
  in every row. It fails for a value that is not a number: the text \<^verbatim>\<open>x: abc\<close>
  compared with itself gives the decreased symbol.
\<close>

theorem self_comparison_counterexample:
  "compareDiagnostics (str ''x: abc'') (str ''x: abc'') (Fin 300)
     = Some (header @ str ''| x | NaN | NaN | '' @ decreased @ str '' (0.00%) |'' @ [10]
             @ footer)
   \<and> decreased \<noteq> unchanged"
  by (simp add: compareDiagnostics_eq parse_x_abc object_eval row_x_nan)

text \<open>
  Claim C3, amended. For every input text and every threshold, the report of the text
  compared with itself has, for each visited key, a row with the same cell twice and
  the percentage 0.00%; the status of the row is the unchanged symbol for every metric
  whose value is a finite number.
\<close>

theorem self_comparison:
  "compareDiagnostics text text t =
     Some (header
       @ concat (map (\<lambda>key.
            str ''| '' @ key @ str '' | '' @ cell (or_zero (get (parseDiagnostics text) key))
              @ str '' | '' @ cell (or_zero (get (parseDiagnostics text) key)) @ str '' | ''
              @ status (diff (or_zero (get (parseDiagnostics text) key))
                             (or_zero (get (parseDiagnostics text) key))) key t
              @ str '' (0.00%) |'' @ [10])
          (for_in_keys (parseDiagnostics text)))
       @ footer)
   \<and> (\<forall>key m x. get (parseDiagnostics text) key = Metric m \<and> m_value m = Fin x \<longrightarrow>
         status (diff (or_zero (get (parseDiagnostics text) key))
                      (or_zero (get (parseDiagnostics text) key))) key t = unchanged)"
proof (intro conjI allI impI)
  show "compareDiagnostics text text t =
     Some (header
       @ concat (map (\<lambda>key.
            str ''| '' @ key @ str '' | '' @ cell (or_zero (get (parseDiagnostics text) key))
              @ str '' | '' @ cell (or_zero (get (parseDiagnostics text) key)) @ str '' | ''
              @ status (diff (or_zero (get (parseDiagnostics text) key))
                             (or_zero (get (parseDiagnostics text) key))) key t
              @ str '' (0.00%) |'' @ [10])
          (for_in_keys (parseDiagnostics text)))
       @ footer)"
    unfolding compareDiagnostics_eq row_text_self ..
next
  fix key m x
  assume "get (parseDiagnostics text) key = Metric m \<and> m_value m = Fin x"
  then have "dot_value (or_zero (get (parseDiagnostics text) key)) = Some (Fin x)"
    by simp
  then show "status (diff (or_zero (get (parseDiagnostics text) key))
                          (or_zero (get (parseDiagnostics text) key))) key t = unchanged"
    by (rule status_self_finite)
qed

theorem self_comparison_witness:
  "compareDiagnostics (str ''Files: 42'') (str ''Files: 42'') (Fin 300)
     = Some (header @ str ''| Files | 42 | 42 | '' @ unchanged @ str '' (0.00%) |'' @ [10]
             @ footer)"
proof -
  define d where "d = parseDiagnostics (str ''Files: 42'')"
  note c = self_comparison[of "str ''Files: 42''" "Fin 300", folded d_def]
  have g: "get d (str ''Files'') = Metric \<lparr>m_value = Fin 42, m_unit = NoUnit\<rparr>"
    by (simp add: d_def parse_files_42 get_def)
  have k: "for_in_keys d = [str ''Files'']"
    by (simp add: d_def parse_files_42 object_eval)
  have s: "status (diff (or_zero (get d (str ''Files''))) (or_zero (get d (str ''Files''))))
             (str ''Files'') (Fin 300) = unchanged"
    using c[THEN conjunct2, rule_format, of "str ''Files''" "\<lparr>m_value = Fin 42, m_unit = NoUnit\<rparr>" 42] g
    by simp
  show ?thesis
    using c[THEN conjunct1] s k g
    by (simp add: cell_def to_string_42)
qed

subsection \<open>The status of a row\<close>

text \<open>
  Claim C4 describes the status: unchanged for a delta of 0; otherwise, for a key that
  contains \<^verbatim>\<open>time\<close> in any letter case, unchanged exactly when
  \<^verbatim>\<open>Math.abs(diff) * 1000 <= threshold\<close>, and else increased or decreased by the sign
  of the delta; for a key without \<^verbatim>\<open>time\<close>, unchanged only for a delta of 0. It adds
  that the boundary is included: a delta equal to \<^verbatim>\<open>threshold / 1000\<close> seconds is
  unchanged. The product is a product of doubles, and it can round to a value above
  the threshold. With threshold 2007, a previous value of \<^verbatim>\<open>0s\<close> and a current value
  of \<^verbatim>\<open>2.007s\<close> the delta is the double \<^verbatim>\<open>2007 / 1000\<close>, the product
  \<^verbatim>\<open>Math.abs(diff) * 1000\<close> is 2007.0000000000002, and the status is the increased
  symbol.
\<close>

theorem boundary_counterexample:
  "diff (or_zero (get (parseDiagnostics (str ''Check time: 0s'')) (str ''Check time'')))
        (or_zero (get (parseDiagnostics (str ''Check time: 2.007s'')) (str ''Check time'')))
     = num_div (Fin 2007) (Fin 1000)
   \<and> compareDiagnostics (str ''Check time: 0s'') (str ''Check time: 2.007s'') (Fin 2007)
       = Some (header
           @ str ''| Check time | 0s | 2.007s | '' @ increased @ str '' (+100.00%) |'' @ [10]
           @ footer)
   \<and> increased \<noteq> unchanged"
  by (simp add: compareDiagnostics_eq parse_check_time_0 parse_check_time_2_007 object_eval
      row_check_time_boundary diff_def to_double_2007_1000 to_double_boundary_delta)

text \<open>
  Claim C4, amended. The status is the unchanged symbol when the delta is 0. Otherwise,
  for a key that contains \<^verbatim>\<open>time\<close> in any letter case, it is the unchanged symbol
  exactly when the double \<^verbatim>\<open>Math.abs(diff) * 1000\<close> is at most the threshold; the
  boundary is included in that a product equal to the threshold is unchanged. When
  the status is not the unchanged symbol it is the increased symbol for a positive
  delta and the decreased symbol for a negative one. For a key without \<^verbatim>\<open>time\<close>
  it is the unchanged symbol only when the delta is 0, whatever the threshold.
\<close>

theorem status_classification:
  "(d = Fin 0 \<longrightarrow> status d key t = unchanged)
   \<and> (d \<noteq> Fin 0 \<and> shouldApplyThreshold key \<longrightarrow>
        (status d key t = unchanged \<longleftrightarrow> less_eq_num (num_mul (math_abs d) (Fin 1000)) t))
   \<and> (d \<noteq> Fin 0 \<and> status d key t \<noteq> unchanged \<longrightarrow>
        (greater_num d (Fin 0) \<longrightarrow> status d key t = increased)
        \<and> (greater_num (Fin 0) d \<longrightarrow> status d key t = decreased))
   \<and> (shouldApplyThreshold key \<and> t \<noteq> NaN \<and> num_mul (math_abs d) (Fin 1000) = t \<longrightarrow>
        status d key t = unchanged)
   \<and> (\<not> shouldApplyThreshold key \<longrightarrow> (status d key t = unchanged \<longleftrightarrow> d = Fin 0))
   \<and> (shouldApplyThreshold key \<longleftrightarrow> (\<exists>a w b. key = a @ w @ b \<and> toLowerCase w = str ''time''))"
proof -
  have pos_neg: "greater_num (Fin 0) d \<Longrightarrow> \<not> greater_num d (Fin 0)"
    by (cases d) auto
  have refl: "t \<noteq> NaN \<Longrightarrow> less_eq_num t t"
    by (cases t) auto
  show ?thesis
    using pos_neg refl shouldApplyThreshold_iff[of key]
    by (auto simp: status_def isWithinThreshold_def)
qed

lemma time_key_1: "shouldApplyThreshold (str ''Check time'')"
  by (simp add: shouldApplyThreshold_def toLowerCase_def)

lemma time_key_2: "shouldApplyThreshold (str ''Check TIME'')"
  by (simp add: shouldApplyThreshold_def toLowerCase_def)

lemma time_key_3: "\<not> shouldApplyThreshold (str ''Files'')"
  by (simp add: shouldApplyThreshold_def toLowerCase_def)

theorem status_classification_witness:
  "status (Fin 0) (str ''Files'') (Fin 300) = unchanged
   \<and> status (Fin (1 / 4)) (str ''Check time'') (Fin 250) = unchanged
   \<and> status (Fin (1 / 2)) (str ''Check TIME'') (Fin 250) = increased
   \<and> status (Fin (- 1)) (str ''Files'') (Fin 300) = decreased"
proof -
  have a: "status (Fin 0) (str ''Files'') (Fin 300) = unchanged"
    using status_classification[of "Fin 0" "str ''Files''" "Fin 300"] by simp
  have b: "status (Fin (1 / 4)) (str ''Check time'') (Fin 250) = unchanged"
    using status_classification[of "Fin (1 / 4)" "str ''Check time''" "Fin 250"]
      time_key_1 by simp
  have c: "status (Fin (1 / 2)) (str ''Check TIME'') (Fin 250) = increased"
    using status_classification[of "Fin (1 / 2)" "str ''Check TIME''" "Fin 250"]
      time_key_2 by simp
  have d: "status (Fin (- 1)) (str ''Files'') (Fin 300) = decreased"
    using status_classification[of "Fin (- 1)" "str ''Files''" "Fin 300"]
      time_key_3 by simp
  from a b c d show ?thesis by simp
qed
subsection \<open>Parsing a value\<close>

text \<open>
  Claim C5 says that a trimmed value ending in \<^verbatim>\<open>s\<close> loses that suffix and the rest
  is parsed as a floating-point number (unit seconds), that otherwise a value ending in
  \<^verbatim>\<open>K\<close> loses that suffix and the rest is parsed as an integer (unit kilo), and
  that any other value is parsed whole as an integer (no unit). The code tests the
  suffix with \<^verbatim>\<open>endsWith\<close> but removes it with \<^verbatim>\<open>value.replace('s', '')\<close>, which
  removes the first \<^verbatim>\<open>s\<close> of the value, not the last. For the line
  \<^verbatim>\<open>x: 1s2s\<close> the code parses \<^verbatim>\<open>12s\<close> and stores 12, while the value without
  its suffix, \<^verbatim>\<open>1s2\<close>, parses to 1. (The two agree when the suffix is the only
  occurrence of the letter in the value: \<open>replace_only_suffix\<close>.)
\<close>

theorem first_occurrence_removed:
  "parseDiagnostics (str ''x: 1s2s'')
     = \<lparr>entries = [(str ''x'', \<lparr>m_value = Fin 12, m_unit = Seconds\<rparr>)], prototype = None\<rparr>
   \<and> parseFloat (butlast (str ''1s2s'')) = Fin 1"
proof -
  have parts: "split 58 (str ''x: 1s2s'') = [str ''x'', str '' 1s2s'']"
    by simp
  have val: "trim (str '' 1s2s'') = str ''1s2s''" and key: "trim (str ''x'') = str ''x''"
    by (simp_all add: trim_def is_whitespace_def)
  have suffix: "endsWith (str ''1s2s'') 115"
    by (simp add: endsWith_def)
  have removed: "replace (str ''1s2s'') 115 = str ''12s''"
    by (simp add: replace_def)
  have stored: "parseFloat (str ''12s'') = Fin 12"
    by (simp add: parseFloat_def string_eval)
  have line: "parse_line d (str ''x: 1s2s'')
                = put d (str ''x'') \<lparr>m_value = Fin 12, m_unit = Seconds\<rparr>" for d
    using parts val key suffix removed stored by (simp add: parse_line_def)
  have object: "parseDiagnostics (str ''x: 1s2s'')
     = \<lparr>entries = [(str ''x'', \<lparr>m_value = Fin 12, m_unit = Seconds\<rparr>)], prototype = None\<rparr>"
    using line by (simp add: parseDiagnostics_def put_def)
  have stripped: "parseFloat (butlast (str ''1s2s'')) = Fin 1"
    by (simp add: parseFloat_def string_eval)
  from object stripped show ?thesis ..
qed

subsection \<open>Parsing never fails\<close>



subsection \<open>Swapping the two snapshots\<close>

text \<open>
  Claim C7 says that swapping the previous and the current snapshot negates every
  delta and reflects every status: increased becomes decreased and decreased becomes
  increased, and unchanged stays. It fails when the delta is not a number: with the
  snapshots of \<^verbatim>\<open>x: abc\<close> and \<^verbatim>\<open>x: 1\<close> the status is the decreased symbol in both
  directions.
\<close>

theorem swap_counterexample:
  "status (diff (or_zero (get (parseDiagnostics (str ''x: abc'')) (str ''x'')))
                (or_zero (get (parseDiagnostics (str ''x: 1'')) (str ''x''))))
          (str ''x'') (Fin 300) = decreased
   \<and> status (diff (or_zero (get (parseDiagnostics (str ''x: 1'')) (str ''x'')))
                  (or_zero (get (parseDiagnostics (str ''x: abc'')) (str ''x''))))
            (str ''x'') (Fin 300) = decreased
   \<and> decreased \<noteq> increased"
  by (simp add: parse_x_abc parse_x_1 get_def diff_def)

text \<open>
  Claim C7, amended. For every pair of snapshots, every key and every threshold,
  swapping the previous and the current snapshot negates the delta; and whenever the
  delta is a number, the statuses reflect: increased in one direction is decreased in
  the other, and unchanged in one direction is unchanged in the other.
\<close>

theorem swap_reflects:
  "diff (or_zero (get B key)) (or_zero (get A key))
     = negate (diff (or_zero (get A key)) (or_zero (get B key)))
   \<and> (diff (or_zero (get A key)) (or_zero (get B key)) \<noteq> NaN \<longrightarrow>
        (status (diff (or_zero (get A key)) (or_zero (get B key))) key t = increased
           \<longleftrightarrow> status (diff (or_zero (get B key)) (or_zero (get A key))) key t = decreased)
        \<and> (status (diff (or_zero (get A key)) (or_zero (get B key))) key t = decreased
           \<longleftrightarrow> status (diff (or_zero (get B key)) (or_zero (get A key))) key t = increased)
        \<and> (status (diff (or_zero (get A key)) (or_zero (get B key))) key t = unchanged
           \<longleftrightarrow> status (diff (or_zero (get B key)) (or_zero (get A key))) key t = unchanged))"
proof -
  define d where "d = diff (or_zero (get A key)) (or_zero (get B key))"
  have sw: "diff (or_zero (get B key)) (or_zero (get A key)) = negate d"
    unfolding d_def diff_def by (rule num_sub_swap)
  have "d \<noteq> NaN \<Longrightarrow> d \<noteq> Fin 0 \<Longrightarrow> greater_num d (Fin 0) \<noteq> greater_num (Fin 0) d"
    by (rule sign_trichotomy)
  then show ?thesis
    unfolding sw d_def[symmetric]
    by (auto simp: status_def greater_negate_zero)
qed

theorem swap_reflects_witness:
  "diff (or_zero (get (parseDiagnostics (str ''x: 1'')) (str ''x'')))
        (or_zero (get (parseDiagnostics (str ''x: 3'')) (str ''x''))) = Fin 2
   \<and> diff (or_zero (get (parseDiagnostics (str ''x: 3'')) (str ''x'')))
          (or_zero (get (parseDiagnostics (str ''x: 1'')) (str ''x''))) = Fin (- 2)
   \<and> status (diff (or_zero (get (parseDiagnostics (str ''x: 1'')) (str ''x'')))
                  (or_zero (get (parseDiagnostics (str ''x: 3'')) (str ''x''))))
            (str ''x'') (Fin 300) = increased
   \<and> status (diff (or_zero (get (parseDiagnostics (str ''x: 3'')) (str ''x'')))
                  (or_zero (get (parseDiagnostics (str ''x: 1'')) (str ''x''))))
            (str ''x'') (Fin 300) = decreased"
proof -
  define A where "A = parseDiagnostics (str ''x: 1'')"
  define B where "B = parseDiagnostics (str ''x: 3'')"
  note c = swap_reflects[of B "str ''x''" A "Fin 300"]
  have d: "diff (or_zero (get A (str ''x''))) (or_zero (get B (str ''x''))) = Fin 2"
    by (simp add: A_def B_def parse_x_1 parse_x_3 get_def diff_def)
  have i: "status (diff (or_zero (get A (str ''x''))) (or_zero (get B (str ''x''))))
             (str ''x'') (Fin 300) = increased"
    unfolding d by (simp add: status_def shouldApplyThreshold_def toLowerCase_def)
  have n: "diff (or_zero (get B (str ''x''))) (or_zero (get A (str ''x''))) = Fin (- 2)"
    using c[THEN conjunct1] d by simp
  have "status (diff (or_zero (get B (str ''x''))) (or_zero (get A (str ''x''))))
             (str ''x'') (Fin 300) = decreased"
    using c[THEN conjunct2] d i by simp
  with d i n show ?thesis unfolding A_def B_def by blast
qed

subsection \<open>The last line wins\<close>

text \<open>
  Claim C8. In the object that \<open>parseDiagnostics\<close> returns no key occurs twice, and
  when several lines of the input have the same trimmed key, the metric read under
  that key is the one that the last of these lines alone would store.
\<close>

theorem last_line_wins:
  "distinct (map fst (entries (parseDiagnostics input)))
   \<and> (let ls = filter (\<lambda>l. length (split 58 l) = 2 \<and> trim (split 58 l ! 0) = key)
                      (split 10 input)
      in ls \<noteq> [] \<longrightarrow>
           get (parseDiagnostics input) key = get (parseDiagnostics (last ls)) key
           \<and> (\<exists>m. get (parseDiagnostics input) key = Metric m))"
proof -
  let ?P = "\<lambda>l. length (split 58 l) = 2 \<and> trim (split 58 l ! 0) = key"
  let ?ls = "filter ?P (split 10 input)"
  have d: "distinct (map fst (entries (parseDiagnostics input)))"
    unfolding parseDiagnostics_def by (rule distinct_foldl_parse_line) simp
  have "get (parseDiagnostics input) key = get (parseDiagnostics (last ?ls)) key
        \<and> (\<exists>m. get (parseDiagnostics input) key = Metric m)" if ne: "?ls \<noteq> []"
  proof -
    have "last ?ls \<in> set ?ls" using ne by (rule last_in_set)
    then have "last ?ls \<in> set (split 10 input)" by simp
    then have "10 \<notin> set (last ?ls)" by (rule split_pieces_no_sep)
    then have pl: "parseDiagnostics (last ?ls) = parse_line \<lparr>entries = [], prototype = None\<rparr> (last ?ls)"
      by (rule parseDiagnostics_line)
    have pi: "parseDiagnostics input = foldl parse_line \<lparr>entries = [], prototype = None\<rparr> (split 10 input)"
      by (rule parseDiagnostics_def)
    show ?thesis
      unfolding pl pi
      by (rule foldl_parse_line_last[OF ne])
  qed
  with d show ?thesis unfolding Let_def by blast
qed

theorem last_line_wins_witness:
  "get (parseDiagnostics (str ''x: 1'' @ [10] @ str ''x: 2'')) (str ''x'')
     = Metric \<lparr>m_value = Fin 2, m_unit = NoUnit\<rparr>
   \<and> distinct (map fst (entries (parseDiagnostics (str ''x: 1'' @ [10] @ str ''x: 2''))))"
proof -
  let ?input = "str ''x: 1'' @ [10] @ str ''x: 2''"
  note c = last_line_wins[of ?input "str ''x''"]
  have ls: "filter (\<lambda>l. length (split 58 l) = 2 \<and> trim (split 58 l ! 0) = str ''x'')
              (split 10 ?input) = [str ''x: 1'', str ''x: 2'']"
    by (simp add: string_eval)
  have g: "get (parseDiagnostics (str ''x: 2'')) (str ''x'')
             = Metric \<lparr>m_value = Fin 2, m_unit = NoUnit\<rparr>"
    by (simp add: parse_x_2 get_def)
  have "get (parseDiagnostics ?input) (str ''x'') = Metric \<lparr>m_value = Fin 2, m_unit = NoUnit\<rparr>"
    using c[THEN conjunct2] g unfolding ls Let_def by simp
  with c[THEN conjunct1] show ?thesis by blast
qed

subsection \<open>The format of the report\<close>

text \<open>
  Claim C9 says that every report has the marker \<^verbatim>\<open>Diagnostics Comparison\<close> in its
  title line and that in every row the status symbol is followed by the percentage
  with two decimal places, with a plus sign when it is positive. The percentage is
  printed by \<^verbatim>\<open>toFixed(2)\<close>, which prints an infinite value by its name: a previous
  value of \<^verbatim>\<open>Infinitys\<close> against a current value of 1 gives \<^verbatim>\<open>-Infinity%\<close>.
\<close>

theorem report_format_counterexample:
  "compareDiagnostics (str ''a: Infinitys'') (str ''a: 1'') (Fin 300)
     = Some (header
         @ str ''| a | Infinitys | 1 | '' @ decreased @ str '' (-Infinity%) |'' @ [10]
         @ footer)
   \<and> \<not> two_decimal_places (str ''-Infinity'')"
  by (simp add: compareDiagnostics_eq parse_a_infinity parse_a_1 object_eval row_a_infinity
      two_decimal_places_def)

text \<open>
  Claim C9, amended. Every report is the header, whose first line contains the marker
  \<^verbatim>\<open>Diagnostics Comparison\<close>, one row for each visited key of the current snapshot
  and the footer. In every row the status, one of the three symbols, is followed by
  the percentage in parentheses, as \<^verbatim>\<open>toFixed(2)\<close> prints it and with a plus sign in
  front when it is positive; \<^verbatim>\<open>toFixed(2)\<close> prints two decimal places for every
  finite value below \<open>10^21\<close> in magnitude. The report is a function of the two
  texts and the threshold.
\<close>

theorem report_format:
  "compareDiagnostics prev current t =
     Some (header
       @ concat (map (\<lambda>key.
            str ''| '' @ key @ str '' | '' @ cell (or_zero (get (parseDiagnostics prev) key))
              @ str '' | '' @ cell (or_zero (get (parseDiagnostics current) key)) @ str '' | ''
              @ status (diff (or_zero (get (parseDiagnostics prev) key))
                             (or_zero (get (parseDiagnostics current) key))) key t
              @ str '' (''
              @ (if greater_num (diffPercentage (or_zero (get (parseDiagnostics prev) key))
                                                (or_zero (get (parseDiagnostics current) key)))
                                (Fin 0)
                 then str ''+'' else [])
              @ toFixed2 (diffPercentage (or_zero (get (parseDiagnostics prev) key))
                                         (or_zero (get (parseDiagnostics current) key)))
              @ str ''%) |'' @ [10])
          (for_in_keys (parseDiagnostics current)))
       @ footer)
   \<and> includes_str (takeWhile (\<lambda>c. c \<noteq> 10) header) (str ''Diagnostics Comparison'')
   \<and> (status d key t = unchanged \<or> status d key t = increased \<or> status d key t = decreased)
   \<and> (\<bar>x\<bar> < 10 ^ 21 \<longrightarrow> two_decimal_places (toFixed2 (Fin x)))"
proof -
  have "includes_str (takeWhile (\<lambda>c. c \<noteq> 10) header) (str ''Diagnostics Comparison'')"
    by (simp add: header_def)
  moreover have "status d key t = unchanged \<or> status d key t = increased
                 \<or> status d key t = decreased"
    by (simp add: status_def)
  ultimately show ?thesis
    using toFixed2_two_decimal_places[of x]
    by (simp add: compareDiagnostics_eq row_text_def)
qed

theorem report_format_witness:
  "compareDiagnostics (str ''x: 1'') (str ''x: 2'') (Fin 300)
     = Some (header @ str ''| x | 1 | 2 | '' @ increased @ str '' (+50.00%) |'' @ [10]
             @ footer)
   \<and> two_decimal_places (str ''50.00'')"
proof -
  define p where "p = parseDiagnostics (str ''x: 1'')"
  define c where "c = parseDiagnostics (str ''x: 2'')"
  note f = report_format[of "str ''x: 1''" "str ''x: 2''" "Fin 300" "Fin 1" "str ''x''" 50,
      folded p_def c_def]
  have k: "for_in_keys c = [str ''x'']"
    by (simp add: c_def parse_x_2 object_eval)
  have gp: "or_zero (get p (str ''x'')) = Metric \<lparr>m_value = Fin 1, m_unit = NoUnit\<rparr>"
    by (simp add: p_def parse_x_1 get_def)
  have gc: "or_zero (get c (str ''x'')) = Metric \<lparr>m_value = Fin 2, m_unit = NoUnit\<rparr>"
    by (simp add: c_def parse_x_2 get_def)
  have r: "compareDiagnostics (str ''x: 1'') (str ''x: 2'') (Fin 300)
     = Some (header @ str ''| x | 1 | 2 | '' @ increased @ str '' (+50.00%) |'' @ [10]
             @ footer)"
    using f[THEN conjunct1] k gp gc row_x_1_2
    by (simp add: row_text_def)
  have "two_decimal_places (toFixed2 (Fin 50))"
    using f[THEN conjunct2, THEN conjunct2, THEN conjunct2] by simp
  then have "two_decimal_places (str ''50.00'')"
    by (simp add: toFixed2_50)
  with r show ?thesis by blast
qed

subsection \<open>A delta that is not a number\<close>



end
